theory Spec2Isabelle
  imports Main "HOL-Library.Word"
begin

unbundle bit_operations_syntax

section \<open>Data model\<close>

text \<open>
  The library passes every Avro value around as a Go \<^verbatim>\<open>interface{}\<close> and branches on
  its dynamic type.  \<open>datum\<close> lists the dynamic types that \<^verbatim>\<open>codec.go\<close> distinguishes:
  the untyped \<^verbatim>\<open>nil\<close>, the Go primitives behind the eight Avro primitives, the
  \<^verbatim>\<open>json.Number\<close> literal produced by a JSON decoder with \<^verbatim>\<open>UseNumber\<close>, generic
  slices and maps, \<^verbatim>\<open>Enum\<close>, \<^verbatim>\<open>Fixed\<close> and \<^verbatim>\<open>*Record\<close>.  Any other Go value is
  \<open>DOther tn\<close>, where \<open>tn\<close> is what \<^verbatim>\<open>reflect.TypeOf(datum).String()\<close> returns for it.
  Floating point values are kept as their IEEE-754 bit patterns.  A Go map is
  represented by its entries in the order in which \<^verbatim>\<open>range\<close> visits them (an order Go
  leaves unspecified).  A \<^verbatim>\<open>*Record\<close> may be the nil pointer (\<open>DRecord None\<close>).

  \<^verbatim>\<open>Record\<close> and its fields are declared in record.go, which is not part of the sources
  at hand; the constructors below carry the members that codec.go reads
  (\<^verbatim>\<open>Name\<close>, \<^verbatim>\<open>Fields\<close>; per field \<^verbatim>\<open>Name\<close>, \<^verbatim>\<open>Datum\<close>, \<^verbatim>\<open>hasDefault\<close>, \<^verbatim>\<open>defval\<close>).
\<close>

type_synonym byte = "8 word"

datatype datum =
    DNil
  | DBool bool
  | DInt32 "32 word"
  | DInt64 "64 word"
  | DFloat32 "32 word"
  | DFloat64 "64 word"
  | DBytes "byte list"
  | DString string
  | DNumber string
  | DArray "datum list"
  | DMap "(string \<times> datum) list"
  | DEnum string string
  | DFixed string "byte list"
  | DRecord "Record option"
  | DOther string
and Record = Record (Name: string) (Fields: "recordField list")
and recordField =
  RecordField (fName: string) (Datum: datum) (hasDefault: bool) (defval: datum)

text \<open>The dynamic type name of a datum, as \<^verbatim>\<open>%T\<close> and \<^verbatim>\<open>reflect.TypeOf\<close> print it.\<close>

fun typeString :: "datum \<Rightarrow> string" where
  "typeString DNil = ''<nil>''"
| "typeString (DBool _) = ''bool''"
| "typeString (DInt32 _) = ''int32''"
| "typeString (DInt64 _) = ''int64''"
| "typeString (DFloat32 _) = ''float32''"
| "typeString (DFloat64 _) = ''float64''"
| "typeString (DBytes _) = ''[]uint8''"
| "typeString (DString _) = ''string''"
| "typeString (DNumber _) = ''json.Number''"
| "typeString (DArray _) = ''[]interface {}''"
| "typeString (DMap _) = ''map[string]interface {}''"
| "typeString (DEnum _ _) = ''goavro.Enum''"
| "typeString (DFixed _ _) = ''goavro.Fixed''"
| "typeString (DRecord _) = ''*goavro.Record''"
| "typeString (DOther tn) = tn"

subsection \<open>Errors\<close>

text \<open>
  An error value keeps the data type prefix (the ``friendly name''), the format string
  with its arguments (not rendered) and the wrapped cause.  \<open>Panic\<close> stands for a
  run-time panic of the Go program (failed type assertion, index out of range, nil
  dereference): it is not a returned value, so no caller wraps it (\<open>wrapErr\<close>).
  \<open>ErrLib\<close> is an error of the Go standard library (encoding/json, strconv) and
  \<open>EOF\<close> is \<^verbatim>\<open>io.EOF\<close>.
\<close>

datatype fmtarg = ArgStr string | ArgInt int | ArgValue datum

datatype error =
    EOF
  | ErrLib string
  | Panic string
  | ErrEncoder string string "fmtarg list" "error option"
  | ErrDecoder string string "fmtarg list" "error option"
  | ErrSchemaParse string "error option"
  | ErrCodecBuild string string "fmtarg list" "error option"

text \<open>
  Modelled from the spec: \<^verbatim>\<open>newEncoderError\<close> and \<^verbatim>\<open>newDecoderError\<close> (encoder.go and
  decoder.go are absent).  ``Every error carries a human-readable friendlyName prefix
  identifying the type path, an optional format/args message, and an optional wrapped
  cause.''  Their sibling \<^verbatim>\<open>newCodecBuildError\<close> in codec.go has this shape.
\<close>

definition newEncoderError :: "string \<Rightarrow> string \<Rightarrow> fmtarg list \<Rightarrow> error option \<Rightarrow> error" where
  "newEncoderError dataType format a err = ErrEncoder dataType format a err"

definition newDecoderError :: "string \<Rightarrow> string \<Rightarrow> fmtarg list \<Rightarrow> error option \<Rightarrow> error" where
  "newDecoderError dataType format a err = ErrDecoder dataType format a err"

definition newCodecBuildError :: "string \<Rightarrow> string \<Rightarrow> fmtarg list \<Rightarrow> error option \<Rightarrow> error" where
  "newCodecBuildError dataType format a err = ErrCodecBuild dataType format a err"

definition wrapErr :: "(error \<Rightarrow> error) \<Rightarrow> error \<Rightarrow> error" where
  "wrapErr f e = (case e of Panic p \<Rightarrow> Panic p | _ \<Rightarrow> f e)"

definition isPanic :: "error \<Rightarrow> bool" where
  "isPanic e = (case e of Panic p \<Rightarrow> True | _ \<Rightarrow> False)"

subsection \<open>Writers, readers and codecs\<close>

text \<open>
  An \<^verbatim>\<open>io.Writer\<close> is only ever written to, so a call of an encoder is described by the
  bytes it wrote, in order, and the error it returned (\<open>None\<close> for \<^verbatim>\<open>nil\<close>).  Writes
  themselves succeed, as on a \<^verbatim>\<open>bytes.Buffer\<close>.  An \<^verbatim>\<open>io.Reader\<close> is the sequence of bytes
  still to be read; a binary decoder returns the datum and the rest of the reader.  JSON
  text is kept as \<open>string\<close> (Isabelle characters are bytes); a JSON decoder builds its own
  \<^verbatim>\<open>json.Decoder\<close> on the reader, so only its result is modelled.
\<close>

type_synonym encoderFunction = "datum \<Rightarrow> byte list \<times> error option"
type_synonym decoderFunction = "byte list \<Rightarrow> error + datum \<times> byte list"
type_synonym jsonEncoderFunction = "datum \<Rightarrow> string \<times> error option"
type_synonym jsonDecoderFunction = "string \<Rightarrow> error + datum"

record codec =
  nm :: string
  df :: decoderFunction
  ef :: encoderFunction
  jdf :: jsonDecoderFunction
  jef :: jsonEncoderFunction
  schema :: string

text \<open>
  Sequencing of writes: \<open>andThen a b\<close> runs \<open>b\<close> after \<open>a\<close> unless \<open>a\<close> returned an error;
  \<open>orReturn f a\<close> is the Go idiom \<^verbatim>\<open>if err != nil { return f(err) }\<close>.
\<close>

definition andThen :: "'b list \<times> error option \<Rightarrow> 'b list \<times> error option \<Rightarrow> 'b list \<times> error option" where
  "andThen a b = (case a of (bs, Some e) \<Rightarrow> (bs, Some e) | (bs, None) \<Rightarrow> (bs @ fst b, snd b))"

definition orReturn :: "(error \<Rightarrow> error) \<Rightarrow> 'b list \<times> error option \<Rightarrow> 'b list \<times> error option" where
  "orReturn f a = (case a of (bs, Some e) \<Rightarrow> (bs, Some (wrapErr f e)) | (bs, None) \<Rightarrow> (bs, None))"

section \<open>Primitive I/O\<close>

text \<open>
  Modelled from the spec: \<^verbatim>\<open>intEncoder\<close>, \<^verbatim>\<open>longEncoder\<close>, \<^verbatim>\<open>intDecoder\<close>, \<^verbatim>\<open>longDecoder\<close>
  and \<^verbatim>\<open>stringDecoder\<close> (encoder.go and decoder.go are absent).  ``zig-zag then
  variable-length: \<open>n \<rightarrow> (n<<1) ^ (n>>bits-1)\<close>, then base-128 little-endian with
  MSB=continuation (0x80 bit), 7 data bits per byte; int fits in \<open>\<le>\<close>5 bytes, long
  \<open>\<le>\<close>10.''  ``Decode fails with a short-read error when the stream ends mid-value.
  Integer decoders reject continuation sequences longer than the type's maximum byte
  width.''  \<^verbatim>\<open>string\<close>: ``long length \<open>\<ge>\<close> 0, followed by that many raw bytes''.
\<close>

definition zigzag32 :: "32 word \<Rightarrow> 32 word" where
  "zigzag32 n = push_bit 1 n XOR signed_drop_bit 31 n"

definition zigzag64 :: "64 word \<Rightarrow> 64 word" where
  "zigzag64 n = push_bit 1 n XOR signed_drop_bit 63 n"

definition unzigzag32 :: "32 word \<Rightarrow> 32 word" where
  "unzigzag32 v = drop_bit 1 v XOR - (v AND 1)"

definition unzigzag64 :: "64 word \<Rightarrow> 64 word" where
  "unzigzag64 v = drop_bit 1 v XOR - (v AND 1)"

function encodeVarint :: "nat \<Rightarrow> byte list" where
  "encodeVarint n =
     (if n < 128 then [of_nat n]
      else of_nat (n mod 128 + 128) # encodeVarint (n div 128))"
  by pat_completeness auto
termination
  by (relation "measure id") auto

fun readVarint :: "nat \<Rightarrow> nat \<Rightarrow> nat \<Rightarrow> byte list \<Rightarrow> error + nat \<times> byte list" where
  "readVarint 0 shift v r = Inl (ErrLib ''varint: too many continuation bytes'')"
| "readVarint (Suc width) shift v [] = Inl EOF"
| "readVarint (Suc width) shift v (b # r) =
     (let v' = v + unat (b AND 127) * 2 ^ shift
      in if b AND 128 = 0 then Inr (v', r) else readVarint width (shift + 7) v' r)"

definition intEncoder :: encoderFunction where
  "intEncoder datum =
     (case datum of
        DInt32 n \<Rightarrow> (encodeVarint (unat (zigzag32 n)), None)
      | _ \<Rightarrow> ([], Some (newEncoderError ''int'' ''expected: int32; received: %T''
                          [ArgStr (typeString datum)] None)))"

definition longEncoder :: encoderFunction where
  "longEncoder datum =
     (case datum of
        DInt64 n \<Rightarrow> (encodeVarint (unat (zigzag64 n)), None)
      | _ \<Rightarrow> ([], Some (newEncoderError ''long'' ''expected: int64; received: %T''
                          [ArgStr (typeString datum)] None)))"

definition intDecoder :: decoderFunction where
  "intDecoder r =
     (case readVarint 5 0 0 r of
        Inl e \<Rightarrow> Inl (newDecoderError ''int'' [] [] (Some e))
      | Inr (v, r') \<Rightarrow> Inr (DInt32 (unzigzag32 (of_nat v)), r'))"

definition longDecoder :: decoderFunction where
  "longDecoder r =
     (case readVarint 10 0 0 r of
        Inl e \<Rightarrow> Inl (newDecoderError ''long'' [] [] (Some e))
      | Inr (v, r') \<Rightarrow> Inr (DInt64 (unzigzag64 (of_nat v)), r'))"

definition stringDecoder :: decoderFunction where
  "stringDecoder r =
     (case longDecoder r of
        Inl e \<Rightarrow> Inl (newDecoderError ''string'' [] [] (Some e))
      | Inr (someValue, r') \<Rightarrow>
          (case someValue of
             DInt64 len \<Rightarrow>
               if sint len < 0
               then Inl (newDecoderError ''string'' ''negative length: %d'' [ArgInt (sint len)] None)
               else if length r' < nat (sint len)
               then Inl (newDecoderError ''string'' [] [] (Some EOF))
               else Inr (DString (map (\<lambda>b. char_of (unat b)) (take (nat (sint len)) r')),
                         drop (nat (sint len)) r')
           | _ \<Rightarrow> Inl (newDecoderError ''string'' ''expected: long; received: %T''
                         [ArgStr (typeString someValue)] None)))"

section \<open>The enum codec\<close>

text \<open>
  \<^verbatim>\<open>makeEnumCodec\<close>, the closures \<^verbatim>\<open>df\<close> and \<^verbatim>\<open>ef\<close> (codec.go, 680--715).  \<open>name\<close> is the
  full name \<^verbatim>\<open>nm.n\<close> and \<open>symtab\<close> the schema's \<^verbatim>\<open>symbols\<close> array, whose members the
  builder has checked to be strings.  The builder does not check that they differ.
\<close>

definition enumFriendlyName :: "string \<Rightarrow> string" where
  "enumFriendlyName name = ''enum ('' @ name @ '')''"

definition enumCodec_df :: "string \<Rightarrow> string list \<Rightarrow> decoderFunction" where
  "enumCodec_df name symtab r =
     (case longDecoder r of
        Inl err \<Rightarrow> Inl (wrapErr (\<lambda>e. newDecoderError (enumFriendlyName name) [] [] (Some e)) err)
      | Inr (someValue, r') \<Rightarrow>
          (case someValue of
             DInt64 index \<Rightarrow>
               if sint index < 0 \<or> int (length symtab) \<le> sint index
               then Inl (newDecoderError (enumFriendlyName name) ''index must be between 0 and %d''
                           [ArgInt (int (length symtab) - 1)] None)
               else Inr (DEnum name (symtab ! nat (sint index)), r')
           | _ \<Rightarrow> Inl (newDecoderError (enumFriendlyName name) ''expected long; received: %T''
                         [ArgStr (typeString someValue)] None)))"

fun enumSymbolLoop :: "string \<Rightarrow> string list \<Rightarrow> nat \<Rightarrow> string \<Rightarrow> byte list \<times> error option" where
  "enumSymbolLoop friendlyName [] idx someString =
     ([], Some (newEncoderError friendlyName ''symbol not defined: %s'' [ArgStr someString] None))"
| "enumSymbolLoop friendlyName (symbol # rest) idx someString =
     (if symbol = someString
      then orReturn (\<lambda>e. newEncoderError friendlyName [] [] (Some e))
                    (longEncoder (DInt64 (of_nat idx)))
      else enumSymbolLoop friendlyName rest (Suc idx) someString)"

definition enumCodec_ef :: "string \<Rightarrow> string list \<Rightarrow> encoderFunction" where
  "enumCodec_ef name symtab datum =
     (case datum of
        DEnum _ someString \<Rightarrow> enumSymbolLoop (enumFriendlyName name) symtab 0 someString
      | DString someString \<Rightarrow> enumSymbolLoop (enumFriendlyName name) symtab 0 someString
      | _ \<Rightarrow> ([], Some (newEncoderError (enumFriendlyName name)
                          ''expected: Enum or string; received: %T''
                          [ArgStr (typeString datum)] None)))"

section \<open>The array codec\<close>

text \<open>
  \<^verbatim>\<open>makeArrayCodec\<close>, the closures \<^verbatim>\<open>ef\<close> (codec.go, 1236--1259) and \<^verbatim>\<open>df\<close> (1203--1235).
  \<open>vef\<close> and \<open>vdf\<close> are \<^verbatim>\<open>valuesCodec.ef\<close> and \<^verbatim>\<open>valuesCodec.df\<close>.
\<close>

definition itemsPerArrayBlock :: nat where
  "itemsPerArrayBlock = 10"

definition arrayFriendlyName :: string where
  "arrayFriendlyName = ''array (array)''"

text \<open>The inner loop \<^verbatim>\<open>for _, item := range items\<close>.\<close>

fun arrayEncodeItems :: "encoderFunction \<Rightarrow> datum list \<Rightarrow> byte list \<times> error option" where
  "arrayEncodeItems vef [] = ([], None)"
| "arrayEncodeItems vef (item # items) =
     andThen (orReturn (\<lambda>e. newEncoderError arrayFriendlyName [] [] (Some e)) (vef item))
             (arrayEncodeItems vef items)"

text \<open>
  The loop \<^verbatim>\<open>for leftIndex := 0; leftIndex < len(someArray); leftIndex += itemsPerArrayBlock\<close>
  followed by the final \<^verbatim>\<open>return longEncoder(w, int64(0))\<close>.
\<close>

function arrayEncodeBlocks :: "encoderFunction \<Rightarrow> datum list \<Rightarrow> nat \<Rightarrow> byte list \<times> error option" where
  "arrayEncodeBlocks vef someArray leftIndex =
     (if leftIndex < length someArray
      then (let rightIndex = leftIndex + itemsPerArrayBlock;
                rightIndex = (if rightIndex > length someArray then length someArray else rightIndex);
                items = take (rightIndex - leftIndex) (drop leftIndex someArray)
            in andThen (orReturn (\<lambda>e. newEncoderError arrayFriendlyName [] [] (Some e))
                                 (longEncoder (DInt64 (of_nat (length items)))))
                 (andThen (arrayEncodeItems vef items)
                          (arrayEncodeBlocks vef someArray (leftIndex + itemsPerArrayBlock))))
      else longEncoder (DInt64 0))"
  by pat_completeness auto
termination
  by (relation "measure (\<lambda>(vef, someArray, leftIndex). length someArray - leftIndex)")
     (auto simp: itemsPerArrayBlock_def)

definition arrayCodec_ef :: "encoderFunction \<Rightarrow> encoderFunction" where
  "arrayCodec_ef vef datum =
     (case datum of
        DArray someArray \<Rightarrow> arrayEncodeBlocks vef someArray 0
      | _ \<Rightarrow> ([], Some (newEncoderError arrayFriendlyName ''expected: []interface{}; received: %T''
                          [ArgStr (typeString datum)] None)))"

text \<open>
  Decoding.  \<open>arrayDecodeItems\<close> is the loop \<^verbatim>\<open>for i := int64(0); i < blockCount; i++\<close>,
  which runs \<open>nat (sint blockCount)\<close> times (not at all when \<open>blockCount\<close> is
  negative).  \<open>arrayDecodeBlocks\<close> is the loop \<^verbatim>\<open>for blockCount != 0\<close>; on a reader that
  keeps delivering blocks it does not return, which is the value \<open>None\<close>.
\<close>

fun arrayDecodeItems ::
  "decoderFunction \<Rightarrow> nat \<Rightarrow> datum list \<Rightarrow> byte list \<Rightarrow> error + datum list \<times> byte list" where
  "arrayDecodeItems vdf 0 data r = Inr (data, r)"
| "arrayDecodeItems vdf (Suc n) data r =
     (case vdf r of
        Inl err \<Rightarrow> Inl (wrapErr (\<lambda>e. newDecoderError arrayFriendlyName [] [] (Some e)) err)
      | Inr (datum, r') \<Rightarrow> arrayDecodeItems vdf n (data @ [datum]) r')"

text \<open>
  The head of the outer loop body: a negative count is negated (in 64-bit arithmetic)
  and one more long, the byte size of the block, is read and discarded.
\<close>

definition blockCountHeader :: "string \<Rightarrow> 64 word \<Rightarrow> byte list \<Rightarrow> error + 64 word \<times> byte list" where
  "blockCountHeader friendlyName blockCount r =
     (if blockCount <s 0
      then (case longDecoder r of
              Inl err \<Rightarrow> Inl (wrapErr (\<lambda>e. newDecoderError friendlyName [] [] (Some e)) err)
            | Inr (_, r') \<Rightarrow> Inr (- blockCount, r'))
      else Inr (blockCount, r))"

partial_function (option) arrayDecodeBlocks ::
  "decoderFunction \<Rightarrow> 64 word \<Rightarrow> datum list \<Rightarrow> byte list \<Rightarrow> (error + datum \<times> byte list) option" where
  "arrayDecodeBlocks vdf blockCount data r =
     (if blockCount = 0 then Some (Inr (DArray data, r))
      else (case blockCountHeader arrayFriendlyName blockCount r of
              Inl e \<Rightarrow> Some (Inl e)
            | Inr (blockCount', r1) \<Rightarrow>
                (case arrayDecodeItems vdf (nat (sint blockCount')) data r1 of
                   Inl e \<Rightarrow> Some (Inl e)
                 | Inr (data', r2) \<Rightarrow>
                     (case longDecoder r2 of
                        Inl err \<Rightarrow>
                          Some (Inl (wrapErr (\<lambda>e. newDecoderError arrayFriendlyName [] [] (Some e)) err))
                      | Inr (someValue, r3) \<Rightarrow>
                          (case someValue of
                             DInt64 next \<Rightarrow> arrayDecodeBlocks vdf next data' r3
                           | _ \<Rightarrow> Some (Inl (Panic ''interface conversion: not int64'')))))))"

definition arrayCodec_df ::
  "decoderFunction \<Rightarrow> byte list \<Rightarrow> (error + datum \<times> byte list) option" where
  "arrayCodec_df vdf r =
     (case longDecoder r of
        Inl err \<Rightarrow> Some (Inl (wrapErr (\<lambda>e. newDecoderError arrayFriendlyName [] [] (Some e)) err))
      | Inr (someValue, r') \<Rightarrow>
          (case someValue of
             DInt64 blockCount \<Rightarrow> arrayDecodeBlocks vdf blockCount [] r'
           | _ \<Rightarrow> Some (Inl (Panic ''interface conversion: not int64''))))"

section \<open>The map codec\<close>

text \<open>
  \<^verbatim>\<open>makeMapCodec\<close>, the closure \<^verbatim>\<open>df\<close> (codec.go, 1049--1089).  \<open>mapAssign\<close> is the
  assignment \<^verbatim>\<open>data[mapKey] = datum\<close>.
\<close>

definition mapFriendlyName :: string where
  "mapFriendlyName = ''map (map)''"

fun mapAssign :: "string \<Rightarrow> datum \<Rightarrow> (string \<times> datum) list \<Rightarrow> (string \<times> datum) list" where
  "mapAssign k v [] = [(k, v)]"
| "mapAssign k v (kv # m) = (if fst kv = k then (k, v) # m else kv # mapAssign k v m)"

fun mapDecodeItems ::
  "decoderFunction \<Rightarrow> nat \<Rightarrow> (string \<times> datum) list \<Rightarrow> byte list
   \<Rightarrow> error + (string \<times> datum) list \<times> byte list" where
  "mapDecodeItems vdf 0 data r = Inr (data, r)"
| "mapDecodeItems vdf (Suc n) data r =
     (case stringDecoder r of
        Inl err \<Rightarrow> Inl (wrapErr (\<lambda>e. newDecoderError mapFriendlyName [] [] (Some e)) err)
      | Inr (someValue, r1) \<Rightarrow>
          (case someValue of
             DString mapKey \<Rightarrow>
               (case vdf r1 of
                  Inl err \<Rightarrow> Inl err
                | Inr (datum, r2) \<Rightarrow> mapDecodeItems vdf n (mapAssign mapKey datum data) r2)
           | _ \<Rightarrow> Inl (newDecoderError mapFriendlyName ''map key ought to be string'' [] None)))"

partial_function (option) mapDecodeBlocks ::
  "decoderFunction \<Rightarrow> 64 word \<Rightarrow> (string \<times> datum) list \<Rightarrow> byte list
   \<Rightarrow> (error + datum \<times> byte list) option" where
  "mapDecodeBlocks vdf blockCount data r =
     (if blockCount = 0 then Some (Inr (DMap data, r))
      else (case blockCountHeader mapFriendlyName blockCount r of
              Inl e \<Rightarrow> Some (Inl e)
            | Inr (blockCount', r1) \<Rightarrow>
                (case mapDecodeItems vdf (nat (sint blockCount')) data r1 of
                   Inl e \<Rightarrow> Some (Inl e)
                 | Inr (data', r2) \<Rightarrow>
                     (case longDecoder r2 of
                        Inl err \<Rightarrow>
                          Some (Inl (wrapErr (\<lambda>e. newDecoderError mapFriendlyName [] [] (Some e)) err))
                      | Inr (someValue, r3) \<Rightarrow>
                          (case someValue of
                             DInt64 next \<Rightarrow> mapDecodeBlocks vdf next data' r3
                           | _ \<Rightarrow> Some (Inl (Panic ''interface conversion: not int64'')))))))"

definition mapCodec_df ::
  "decoderFunction \<Rightarrow> byte list \<Rightarrow> (error + datum \<times> byte list) option" where
  "mapCodec_df vdf r =
     (case longDecoder r of
        Inl err \<Rightarrow> Some (Inl (wrapErr (\<lambda>e. newDecoderError mapFriendlyName [] [] (Some e)) err))
      | Inr (someValue, r') \<Rightarrow>
          (case someValue of
             DInt64 blockCount \<Rightarrow> mapDecodeBlocks vdf blockCount [] r'
           | _ \<Rightarrow> Some (Inl (Panic ''interface conversion: not int64''))))"

section \<open>The record codec\<close>

text \<open>
  \<^verbatim>\<open>makeRecordCodec\<close>, the closure \<^verbatim>\<open>ef\<close> (codec.go, 909--933).  \<open>templateName\<close> is
  \<^verbatim>\<open>recordTemplate.Name\<close> and \<open>fieldCodecs\<close> the codecs built for the schema's fields, in
  declared order.  \<^verbatim>\<open>reflect.ValueOf(field.Datum).IsValid()\<close> is false exactly for the
  untyped nil.  The loop ranges over the fields of the record value and indexes
  \<open>fieldCodecs\<close> by position; Go panics when the index is out of range.
\<close>

definition recordFriendlyName :: "string \<Rightarrow> string" where
  "recordFriendlyName templateName = ''record ('' @ templateName @ '')''"

definition recordFieldValue :: "string \<Rightarrow> recordField \<Rightarrow> error + datum" where
  "recordFieldValue friendlyName field =
     (if Datum field \<noteq> DNil then Inr (Datum field)
      else if hasDefault field then Inr (defval field)
      else Inl (newEncoderError friendlyName ''field has no data and no default set: %v''
                  [ArgStr (fName field)] None))"

fun recordEncodeFields ::
  "string \<Rightarrow> codec list \<Rightarrow> nat \<Rightarrow> recordField list \<Rightarrow> byte list \<times> error option" where
  "recordEncodeFields friendlyName fieldCodecs idx [] = ([], None)"
| "recordEncodeFields friendlyName fieldCodecs idx (field # others) =
     (case recordFieldValue friendlyName field of
        Inl e \<Rightarrow> ([], Some e)
      | Inr v \<Rightarrow>
          if idx < length fieldCodecs
          then andThen (orReturn (\<lambda>e. newEncoderError friendlyName [] [] (Some e))
                                 (ef (fieldCodecs ! idx) v))
                       (recordEncodeFields friendlyName fieldCodecs (Suc idx) others)
          else ([], Some (Panic ''index out of range'')))"

definition recordCodec_ef :: "string \<Rightarrow> codec list \<Rightarrow> encoderFunction" where
  "recordCodec_ef templateName fieldCodecs datum =
     (case datum of
        DRecord (Some someRecord) \<Rightarrow>
          if Name someRecord \<noteq> templateName
          then ([], Some (newEncoderError (recordFriendlyName templateName)
                            ''expected: %v; received: %v''
                            [ArgStr templateName, ArgStr (Name someRecord)] None))
          else recordEncodeFields (recordFriendlyName templateName) fieldCodecs 0 (Fields someRecord)
      | DRecord None \<Rightarrow> ([], Some (Panic ''nil pointer dereference''))
      | _ \<Rightarrow> ([], Some (newEncoderError (recordFriendlyName templateName)
                          ''expected: Record; received: %T'' [ArgStr (typeString datum)] None)))"

section \<open>The union codec\<close>

text \<open>
  \<^verbatim>\<open>makeUnionCodec\<close> (codec.go, 421--638).  \<open>members\<close> is the schema array after the
  calls of \<^verbatim>\<open>st.buildCodec\<close> and \<^verbatim>\<open>getUnionTypeName\<close>: each member's codec with its union
  type name.  The loop fills the tables by assignment, so a later member replaces an
  earlier one under the same key.
\<close>

record unionEncoder =
  ue_ef :: encoderFunction
  ue_jef :: jsonEncoderFunction
  ue_tn :: string
  ue_index :: "32 word"

record unionTables =
  nameToUnionEncoder :: "string \<rightharpoonup> unionEncoder"
  indexToDecoder :: "decoderFunction list"
  nameToJSONDecoder :: "string \<rightharpoonup> jsonDecoderFunction"
  allowedNames :: "string list"

fun unionMembersLoop :: "(codec \<times> string) list \<Rightarrow> nat \<Rightarrow> unionTables \<Rightarrow> unionTables" where
  "unionMembersLoop [] idx t = t"
| "unionMembersLoop ((c, unionType) # members) idx t =
     unionMembersLoop members (Suc idx)
       \<lparr> nameToUnionEncoder = (nameToUnionEncoder t)(nm c \<mapsto>
            \<lparr> ue_ef = ef c, ue_jef = jef c, ue_tn = unionType, ue_index = of_nat idx \<rparr>),
         indexToDecoder = indexToDecoder t @ [df c],
         nameToJSONDecoder = (nameToJSONDecoder t)(unionType \<mapsto> jdf c),
         allowedNames = allowedNames t @ [nm c] \<rparr>"

definition makeUnionTables :: "(codec \<times> string) list \<Rightarrow> unionTables" where
  "makeUnionTables members =
     unionMembersLoop members 0
       \<lparr> nameToUnionEncoder = Map.empty, indexToDecoder = [],
         nameToJSONDecoder = Map.empty, allowedNames = [] \<rparr>"

fun stringsJoin :: "string list \<Rightarrow> string \<Rightarrow> string" where
  "stringsJoin [] sep = []"
| "stringsJoin [a] sep = a"
| "stringsJoin (a # b # rest) sep = a @ sep @ stringsJoin (b # rest) sep"

definition invalidType :: "unionTables \<Rightarrow> string" where
  "invalidType t =
     ''datum ought match schema: expected: '' @ stringsJoin (allowedNames t) '', '' @ ''; received: ''"

definition unionFriendlyName :: string where
  "unionFriendlyName = ''union (union)''"

text \<open>
  The type switch that derives the discriminator name from the datum (482--500, and
  again 575--591).  \<^verbatim>\<open>datum.(*Record).Name\<close> dereferences the pointer.
\<close>

definition unionDatumName :: "datum \<Rightarrow> error + string" where
  "unionDatumName datum =
     (case datum of
        DMap _ \<Rightarrow> Inr ''map''
      | DArray _ \<Rightarrow> Inr ''array''
      | DNil \<Rightarrow> Inr ''null''
      | DEnum n _ \<Rightarrow> Inr n
      | DFixed n _ \<Rightarrow> Inr n
      | DRecord (Some r) \<Rightarrow> Inr (Name r)
      | DRecord None \<Rightarrow> Inl (Panic ''nil pointer dereference'')
      | _ \<Rightarrow> Inr (typeString datum))"

definition unionCodec_ef :: "unionTables \<Rightarrow> encoderFunction" where
  "unionCodec_ef t datum =
     (case unionDatumName datum of
        Inl e \<Rightarrow> ([], Some e)
      | Inr name \<Rightarrow>
          (case nameToUnionEncoder t name of
             None \<Rightarrow> ([], Some (newEncoderError unionFriendlyName (invalidType t @ name) [] None))
           | Some ue \<Rightarrow>
               andThen (orReturn (\<lambda>e. newEncoderError unionFriendlyName [] [] (Some e))
                                 (intEncoder (DInt32 (ue_index ue))))
                       (orReturn (\<lambda>e. newEncoderError unionFriendlyName [] [] (Some e))
                                 (ue_ef ue datum))))"

section \<open>JSON\<close>

text \<open>
  The JSON codecs call Go's \<^verbatim>\<open>encoding/json\<close>.  \<open>json\<close> is the set of values that
  \<^verbatim>\<open>Decoder.Decode\<close> stores into an \<^verbatim>\<open>interface{}\<close> when \<^verbatim>\<open>UseNumber\<close> is on: nil, bool,
  \<^verbatim>\<open>json.Number\<close> (the literal text), string, \<^verbatim>\<open>[]interface{}\<close> and
  \<^verbatim>\<open>map[string]interface{}\<close>; \<open>fromJSON\<close> is the same value as a datum.  The library itself
  is a parameter of the model: \<open>json_Decode lib r\<close> is
  \<^verbatim>\<open>dec := json.NewDecoder(r); dec.UseNumber(); dec.Decode(&v)\<close> for an \<^verbatim>\<open>interface{}\<close> \<open>v\<close>,
  and \<open>json_Marshal lib\<close> is \<^verbatim>\<open>json.Marshal\<close>.
\<close>

datatype json =
    JNull
  | JBool bool
  | JNumber string
  | JString string
  | JArray "json list"
  | JObject "(string \<times> json) list"

fun fromJSON :: "json \<Rightarrow> datum" where
  "fromJSON JNull = DNil"
| "fromJSON (JBool b) = DBool b"
| "fromJSON (JNumber n) = DNumber n"
| "fromJSON (JString s) = DString s"
| "fromJSON (JArray xs) = DArray (map fromJSON xs)"
| "fromJSON (JObject kvs) = DMap (map (\<lambda>(k, v). (k, fromJSON v)) kvs)"

record jsonlib =
  json_Decode :: "string \<Rightarrow> error + json"
  json_Marshal :: "datum \<Rightarrow> error + string"

text \<open>
  \<^verbatim>\<open>json.Number.Int64\<close> is \<^verbatim>\<open>strconv.ParseInt(string(n), 10, 64)\<close>: an optional sign, then
  decimal digits only, and a range check against 64 bits.
\<close>

definition isDigit :: "char \<Rightarrow> bool" where
  "isDigit c = (48 \<le> (of_char c :: nat) \<and> (of_char c :: nat) \<le> 57)"

definition decimalValue :: "string \<Rightarrow> nat" where
  "decimalValue ds = foldl (\<lambda>v c. 10 * v + ((of_char c :: nat) - 48)) 0 ds"

definition Number_Int64 :: "string \<Rightarrow> error + 64 word" where
  "Number_Int64 s =
     (case s of
        [] \<Rightarrow> Inl (ErrLib ''strconv.ParseInt: invalid syntax'')
      | c # cs \<Rightarrow>
          (let neg = (c = CHR ''-'');
               ds = (if c = CHR ''+'' \<or> c = CHR ''-'' then cs else s)
           in if ds = [] \<or> \<not> list_all isDigit ds
              then Inl (ErrLib ''strconv.ParseInt: invalid syntax'')
              else (let un = decimalValue ds
                    in if \<not> neg \<and> un \<ge> 2 ^ 63 then Inl (ErrLib ''strconv.ParseInt: value out of range'')
                       else if neg \<and> un > 2 ^ 63 then Inl (ErrLib ''strconv.ParseInt: value out of range'')
                       else Inr (if neg then - of_nat un else of_nat un))))"

subsection \<open>Generic JSON decoders and encoders (json\_decoder.go, json\_encoder.go)\<close>

definition newJSONDecoder :: "jsonlib \<Rightarrow> string \<Rightarrow> jsonDecoderFunction" where
  "newJSONDecoder lib goType r =
     (case json_Decode lib r of
        Inl err \<Rightarrow> Inl (newDecoderError goType [] [] (Some err))
      | Inr datum \<Rightarrow> Inr (fromJSON datum))"

definition nullJSONDecoder :: "jsonlib \<Rightarrow> jsonDecoderFunction" where
  "nullJSONDecoder lib r = newJSONDecoder lib ''nil'' r"

definition intJSONDecoder :: "jsonlib \<Rightarrow> jsonDecoderFunction" where
  "intJSONDecoder lib r =
     (case newJSONDecoder lib ''int'' r of
        Inl err \<Rightarrow> Inl err
      | Inr someValue \<Rightarrow>
          (case someValue of
             DNumber someNumber \<Rightarrow>
               (case Number_Int64 someNumber of
                  Inl err \<Rightarrow> Inl (newDecoderError ''int'' ''expected int64: received %v''
                                     [ArgStr someNumber] None)
                | Inr someInt \<Rightarrow> Inr (DInt32 (ucast someInt)))
           | _ \<Rightarrow> Inl (newDecoderError ''int'' ''expected json.Number: received %T''
                         [ArgStr ''json.Number''] None)))"

definition longJSONDecoder :: "jsonlib \<Rightarrow> jsonDecoderFunction" where
  "longJSONDecoder lib r =
     (case newJSONDecoder lib ''long'' r of
        Inl err \<Rightarrow> Inl err
      | Inr someValue \<Rightarrow>
          (case someValue of
             DNumber someNumber \<Rightarrow>
               (case Number_Int64 someNumber of
                  Inl err \<Rightarrow> Inl err
                | Inr someInt \<Rightarrow> Inr (DInt64 someInt))
           | _ \<Rightarrow> Inl (newDecoderError ''long'' ''expected json.Number: received %T''
                         [ArgStr ''json.Number''] None)))"

definition stringJSONDecoder :: "jsonlib \<Rightarrow> jsonDecoderFunction" where
  "stringJSONDecoder lib r = newJSONDecoder lib ''string'' r"

definition newJSONEncoder :: "jsonlib \<Rightarrow> string \<Rightarrow> jsonEncoderFunction" where
  "newJSONEncoder lib goType datum =
     (case json_Marshal lib datum of
        Inl err \<Rightarrow> ([], Some (newEncoderError goType ''json encode marshal error: %v'' [] (Some err)))
      | Inr b \<Rightarrow> (b, None))"

definition nullJSONEncoder :: "jsonlib \<Rightarrow> jsonEncoderFunction" where
  "nullJSONEncoder lib datum = newJSONEncoder lib ''nil'' datum"

definition intJSONEncoder :: "jsonlib \<Rightarrow> jsonEncoderFunction" where
  "intJSONEncoder lib datum =
     (case datum of
        DInt32 someNumber \<Rightarrow> newJSONEncoder lib ''int32'' (DInt32 someNumber)
      | _ \<Rightarrow> ([], Some (newEncoderError ''int'' ''expected: int32 received %T''
                          [ArgStr (typeString datum)] None)))"

definition longJSONEncoder :: "jsonlib \<Rightarrow> jsonEncoderFunction" where
  "longJSONEncoder lib datum =
     (case datum of
        DInt64 someNumber \<Rightarrow> newJSONEncoder lib ''int64'' (DInt64 someNumber)
      | _ \<Rightarrow> ([], Some (newEncoderError ''long'' ''expected: int64 received %T''
                          [ArgStr (typeString datum)] None)))"

definition stringJSONEncoder :: "jsonlib \<Rightarrow> jsonEncoderFunction" where
  "stringJSONEncoder lib datum = newJSONEncoder lib ''string'' datum"

subsection \<open>Primitive codecs of the symbol table\<close>

text \<open>
  Modelled from the spec: \<^verbatim>\<open>nullEncoder\<close>, \<^verbatim>\<open>nullDecoder\<close> and \<^verbatim>\<open>stringEncoder\<close> (encoder.go
  and decoder.go are absent).  ``null: zero bytes''; ``string: same framing as bytes'',
  that is, the length as a long followed by the raw bytes.
\<close>

definition nullEncoder :: encoderFunction where
  "nullEncoder datum = ([], None)"

definition nullDecoder :: decoderFunction where
  "nullDecoder r = Inr (DNil, r)"

definition stringEncoder :: encoderFunction where
  "stringEncoder datum =
     (case datum of
        DString someString \<Rightarrow>
          andThen (longEncoder (DInt64 (of_nat (length someString))))
                  (map (\<lambda>c. of_nat (of_char c)) someString, None)
      | _ \<Rightarrow> ([], Some (newEncoderError ''string'' ''expected: string; received: %T''
                          [ArgStr (typeString datum)] None)))"

text \<open>The codecs that \<^verbatim>\<open>newSymbolTable\<close> creates (codec.go, 149--165), for the primitives above.\<close>

definition nullCodec :: "jsonlib \<Rightarrow> codec" where
  "nullCodec lib = \<lparr> nm = ''null'', df = nullDecoder, ef = nullEncoder,
                     jdf = nullJSONDecoder lib, jef = nullJSONEncoder lib, schema = [] \<rparr>"

definition intCodec :: "jsonlib \<Rightarrow> codec" where
  "intCodec lib = \<lparr> nm = ''int32'', df = intDecoder, ef = intEncoder,
                    jdf = intJSONDecoder lib, jef = intJSONEncoder lib, schema = [] \<rparr>"

definition longCodec :: "jsonlib \<Rightarrow> codec" where
  "longCodec lib = \<lparr> nm = ''int64'', df = longDecoder, ef = longEncoder,
                     jdf = longJSONDecoder lib, jef = longJSONEncoder lib, schema = [] \<rparr>"

definition stringCodec :: "jsonlib \<Rightarrow> codec" where
  "stringCodec lib = \<lparr> nm = ''string'', df = stringDecoder, ef = stringEncoder,
                       jdf = stringJSONDecoder lib, jef = stringJSONEncoder lib, schema = [] \<rparr>"

subsection \<open>Union: JSON decoding (codec.go, 514--564)\<close>

text \<open>
  The type switch on the parsed value.  For an object, the loop
  \<^verbatim>\<open>for k, v := range mapValue { typeName = k; value = v; break }\<close> takes the entry that
  \<^verbatim>\<open>range\<close> visits first, and leaves \<open>typeName\<close> empty and the value unchanged when the
  object has no entry.  (Before the ``unknown union type'' error the source prints the
  table with \<^verbatim>\<open>fmt.Printf\<close>; standard output is not modelled.)
\<close>

definition unionJSONTypeName :: "json \<Rightarrow> error + string \<times> json" where
  "unionJSONTypeName v =
     (case v of
        JNull \<Rightarrow> Inr (''null'', v)
      | JObject mapValue \<Rightarrow>
          (case mapValue of
             [] \<Rightarrow> Inr ([], v)
           | (k, v') # _ \<Rightarrow> Inr (k, v'))
      | _ \<Rightarrow> Inl (newDecoderError unionFriendlyName ''unsupported union value %v''
                    [ArgValue (fromJSON v)] None))"

definition unionCodec_jdf :: "jsonlib \<Rightarrow> unionTables \<Rightarrow> jsonDecoderFunction" where
  "unionCodec_jdf lib t r =
     (case json_Decode lib r of
        Inl err \<Rightarrow> Inl (newDecoderError unionFriendlyName [] [] (Some err))
      | Inr v \<Rightarrow>
          (case unionJSONTypeName v of
             Inl e \<Rightarrow> Inl e
           | Inr (typeName, v') \<Rightarrow>
               (case nameToJSONDecoder t typeName of
                  None \<Rightarrow> Inl (newDecoderError unionFriendlyName ''unknown union type %v''
                                 [ArgStr typeName] None)
                | Some jsonDecoderFunc \<Rightarrow>
                    (case json_Marshal lib (fromJSON v') of
                       Inl err \<Rightarrow> Inl (newDecoderError unionFriendlyName
                                          ''union json decode failed: %v'' [] (Some err))
                     | Inr b \<Rightarrow> jsonDecoderFunc b))))"

subsection \<open>Fixed: JSON decoding (codec.go, 804--814)\<close>

text \<open>
  \<^verbatim>\<open>someFixed := someValue.([]byte)\<close> is a type assertion without the \<^verbatim>\<open>ok\<close> result: it
  panics when the dynamic type of \<open>someValue\<close> is not \<^verbatim>\<open>[]byte\<close>.
\<close>

definition fixedFriendlyName :: "string \<Rightarrow> string" where
  "fixedFriendlyName name = ''fixed ('' @ name @ '')''"

definition fixedCodec_jdf :: "jsonlib \<Rightarrow> string \<Rightarrow> 32 word \<Rightarrow> jsonDecoderFunction" where
  "fixedCodec_jdf lib name sz r =
     (case newJSONDecoder lib ''string'' r of
        Inl err \<Rightarrow> Inl (wrapErr (\<lambda>e. newDecoderError (fixedFriendlyName name) [] [] (Some e)) err)
      | Inr someValue \<Rightarrow>
          (case someValue of
             DBytes someFixed \<Rightarrow>
               if int (length someFixed) < sint sz
               then Inl (newDecoderError (fixedFriendlyName name) ''buffer underrun'' [] None)
               else Inr (DFixed name someFixed)
           | _ \<Rightarrow> Inl (Panic (''interface conversion: interface {} is ''
                               @ typeString someValue @ '', not []uint8''))))"

subsection \<open>Record: JSON encoding (codec.go, 839--864 and 963--1017)\<close>

text \<open>
  \<open>shortname\<close> stands for \<^verbatim>\<open>newName(nameName(field.Name))\<close> followed by
  \<^verbatim>\<open>n.shortname()\<close>; name.go is absent, so it is a parameter.  Each field is encoded into
  a temporary buffer, parsed back into a generic JSON value and appended to the
  \<^verbatim>\<open>OrderedMap\<close>; nothing is written to \<open>w\<close> before the single final \<^verbatim>\<open>w.Write(b)\<close>.
\<close>

fun recordJSONFields ::
  "jsonlib \<Rightarrow> (string \<Rightarrow> error + string) \<Rightarrow> string \<Rightarrow> codec list \<Rightarrow> nat \<Rightarrow> recordField list
   \<Rightarrow> (string \<times> json) list \<Rightarrow> error + (string \<times> json) list" where
  "recordJSONFields lib shortname friendlyName fieldCodecs idx [] orderedMap = Inr orderedMap"
| "recordJSONFields lib shortname friendlyName fieldCodecs idx (field # others) orderedMap =
     (case recordFieldValue friendlyName field of
        Inl e \<Rightarrow> Inl e
      | Inr v \<Rightarrow>
          if idx < length fieldCodecs
          then (case jef (fieldCodecs ! idx) v of
                  (buff, Some err) \<Rightarrow>
                    Inl (wrapErr (\<lambda>e. newEncoderError friendlyName [] [] (Some e)) err)
                | (buff, None) \<Rightarrow>
                    (case json_Decode lib buff of
                       Inl err \<Rightarrow> Inl (newEncoderError friendlyName [] [] (Some err))
                     | Inr jsonValue \<Rightarrow>
                         (case shortname (fName field) of
                            Inl err \<Rightarrow> Inl (newEncoderError friendlyName [] [] (Some err))
                          | Inr key \<Rightarrow>
                              recordJSONFields lib shortname friendlyName fieldCodecs (Suc idx) others
                                (orderedMap @ [(key, jsonValue)]))))
          else Inl (Panic ''index out of range''))"

text \<open>
  \<^verbatim>\<open>OrderedMap.MarshalJSON\<close>.  \<^verbatim>\<open>json.Marshal(orderedMap)\<close> calls it and returns its bytes
  (after compacting them, which leaves the output of \<^verbatim>\<open>json.Marshal\<close> as it is).
\<close>

fun marshalKeyVals :: "jsonlib \<Rightarrow> nat \<Rightarrow> (string \<times> json) list \<Rightarrow> error + string" where
  "marshalKeyVals lib i [] = Inr []"
| "marshalKeyVals lib i (kv # omap) =
     (case json_Marshal lib (DString (fst kv)) of
        Inl err \<Rightarrow> Inl err
      | Inr key \<Rightarrow>
          (case json_Marshal lib (fromJSON (snd kv)) of
             Inl err \<Rightarrow> Inl err
           | Inr val \<Rightarrow>
               (case marshalKeyVals lib (Suc i) omap of
                  Inl err \<Rightarrow> Inl err
                | Inr buf \<Rightarrow> Inr ((if i \<noteq> 0 then '','' else []) @ key @ '':'' @ val @ buf))))"

definition OrderedMap_MarshalJSON :: "jsonlib \<Rightarrow> (string \<times> json) list \<Rightarrow> error + string" where
  "OrderedMap_MarshalJSON lib omap =
     (case marshalKeyVals lib 0 omap of
        Inl err \<Rightarrow> Inl err
      | Inr buf \<Rightarrow> Inr (''{'' @ buf @ ''}''))"

definition recordCodec_jef ::
  "jsonlib \<Rightarrow> (string \<Rightarrow> error + string) \<Rightarrow> string \<Rightarrow> codec list \<Rightarrow> jsonEncoderFunction" where
  "recordCodec_jef lib shortname templateName fieldCodecs datum =
     (case datum of
        DRecord (Some someRecord) \<Rightarrow>
          if Name someRecord \<noteq> templateName
          then ([], Some (newEncoderError (recordFriendlyName templateName)
                            ''expected: %v; received: %v''
                            [ArgStr templateName, ArgStr (Name someRecord)] None))
          else (case recordJSONFields lib shortname (recordFriendlyName templateName) fieldCodecs 0
                       (Fields someRecord) [] of
                  Inl e \<Rightarrow> ([], Some e)
                | Inr orderedMap \<Rightarrow>
                    (case OrderedMap_MarshalJSON lib orderedMap of
                       Inl err \<Rightarrow> ([], Some (newEncoderError (recordFriendlyName templateName)
                                                ''record json encode error: %v'' [] (Some err)))
                     | Inr b \<Rightarrow> (b, None)))
      | DRecord None \<Rightarrow> ([], Some (Panic ''nil pointer dereference''))
      | _ \<Rightarrow> ([], Some (newEncoderError (recordFriendlyName templateName)
                          ''expected: Record; received: %T'' [ArgStr (typeString datum)] None)))"

text \<open>
  The codec that \<^verbatim>\<open>makeRecordCodec\<close> returns (codec.go, 896--1018).  Its closures \<^verbatim>\<open>df\<close> and
  \<^verbatim>\<open>jdf\<close> start from \<^verbatim>\<open>NewRecord\<close> (record.go, absent) and are parameters; the schema
  text is set by \<^verbatim>\<open>NewCodec\<close> only.
\<close>

definition recordCodec ::
  "jsonlib \<Rightarrow> (string \<Rightarrow> error + string) \<Rightarrow> string \<Rightarrow> codec list
   \<Rightarrow> decoderFunction \<Rightarrow> jsonDecoderFunction \<Rightarrow> codec" where
  "recordCodec lib shortname templateName fieldCodecs recordDf recordJdf =
     \<lparr> nm = templateName, df = recordDf, ef = recordCodec_ef templateName fieldCodecs,
       jdf = recordJdf, jef = recordCodec_jef lib shortname templateName fieldCodecs,
       schema = [] \<rparr>"

section \<open>NewCodec (codec.go, 220--249) and Schema (279--281)\<close>

text \<open>
  \<open>json_Unmarshal lib\<close> is \<^verbatim>\<open>json.Unmarshal\<close> into an \<^verbatim>\<open>interface{}\<close> and
  \<open>json_MarshalSchema lib\<close> is \<^verbatim>\<open>json.Marshal\<close> of that value; \<open>'s\<close> is the type of the
  parsed schema.  \<open>buildCodec\<close> is \<^verbatim>\<open>st.buildCodec(nullNamespace, schema)\<close> on the fresh
  symbol table; it needs name.go and record.go, which are absent, and is a parameter.
  A setter returns an error or nil.
\<close>

record 's schemalib =
  json_Unmarshal :: "string \<Rightarrow> error + 's"
  json_MarshalSchema :: "'s \<Rightarrow> error + string"

fun runSetters :: "(codec \<Rightarrow> error option) list \<Rightarrow> codec \<Rightarrow> error option" where
  "runSetters [] c = None"
| "runSetters (setter # setters) c =
     (case setter c of Some err \<Rightarrow> Some err | None \<Rightarrow> runSetters setters c)"

definition NewCodec ::
  "'s schemalib \<Rightarrow> ('s \<Rightarrow> error + codec) \<Rightarrow> (codec \<Rightarrow> error option) list \<Rightarrow> string
   \<Rightarrow> error + codec" where
  "NewCodec lib buildCodec setters someJSONSchema =
     (case json_Unmarshal lib someJSONSchema of
        Inl err \<Rightarrow> Inl (ErrSchemaParse ''cannot unmarshal JSON'' (Some err))
      | Inr parsed \<Rightarrow>
          (case json_MarshalSchema lib parsed of
             Inl err \<Rightarrow> Inl (ErrLib ''cannot marshal schema'')
           | Inr compressedSchema \<Rightarrow>
               (case buildCodec parsed of
                  Inl err \<Rightarrow> Inl err
                | Inr newCodec \<Rightarrow>
                    (case runSetters setters newCodec of
                       Some err \<Rightarrow> Inl err
                     | None \<Rightarrow> Inr (newCodec \<lparr> schema := compressedSchema \<rparr>)))))"

definition Schema :: "codec \<Rightarrow> string" where
  "Schema c = schema c"

section \<open>A reference JSON reader and writer\<close>

text \<open>
  Closed examples need a concrete \<open>jsonlib\<close>.  \<open>goJSON\<close> reads and writes the part of
  JSON that the examples use, as \<^verbatim>\<open>encoding/json\<close> does on that part: white space,
  \<^verbatim>\<open>null\<close>, \<^verbatim>\<open>true\<close>, \<^verbatim>\<open>false\<close>, number literals (kept as text), strings of
  printable ASCII (with the escapes \<^verbatim>\<open>\"\<close>, \<^verbatim>\<open>\\\<close>, \<^verbatim>\<open>\/\<close> and \<^verbatim>\<open>\u00XX\<close> of such a
  character), arrays and objects (a repeated key
  keeps its last value).  The reader is a \<^verbatim>\<open>json.Decoder\<close>: it takes the first value of
  the text and leaves the rest, and a number literal ends where the number grammar
  ends (of \<^verbatim>\<open>007\<close> it reads \<^verbatim>\<open>0\<close>).  The writer emits no white space, sorts the keys of a
  map, prints \<^verbatim>\<open>int32\<close> and \<^verbatim>\<open>int64\<close> in decimal and writes \<^verbatim>\<open><\<close>, \<^verbatim>\<open>>\<close> and \<^verbatim>\<open>&\<close> of a
  string as \<^verbatim>\<open>\u003c\<close>, \<^verbatim>\<open>\u003e\<close> and \<^verbatim>\<open>\u0026\<close>.  Anything else is answered with an
  \<open>ErrLib\<close>.
  The general theorems below hold for every \<open>jsonlib\<close>, not only for this one.
\<close>

definition isSpace :: "char \<Rightarrow> bool" where
  "isSpace c = (c = CHR '' '' \<or> c = CHR 0x09 \<or> c = CHR 0x0A \<or> c = CHR 0x0D)"

fun skipSpace :: "string \<Rightarrow> string" where
  "skipSpace [] = []"
| "skipSpace (c # cs) = (if isSpace c then skipSpace cs else c # cs)"

definition scanDigits :: "string \<Rightarrow> string \<times> string" where
  "scanDigits s = (takeWhile isDigit s, dropWhile isDigit s)"

definition scanNumber :: "string \<Rightarrow> (string \<times> string) option" where
  "scanNumber s =
     (let (sign, s1) = (if s \<noteq> [] \<and> hd s = CHR ''-'' then (''-'', tl s) else ([], s));
          (ip, s2) = (if s1 \<noteq> [] \<and> hd s1 = CHR ''0'' then (''0'', tl s1) else scanDigits s1)
      in if ip = [] then None
         else (let (fp, s3) = (if s2 \<noteq> [] \<and> hd s2 = CHR ''.''
                               then (let (ds, rest) = scanDigits (tl s2) in (CHR ''.'' # ds, rest))
                               else ([], s2))
               in if fp = ''.'' then None
                  else (let (ep, s4) =
                          (if s3 \<noteq> [] \<and> (hd s3 = CHR ''e'' \<or> hd s3 = CHR ''E'')
                           then (let t = tl s3;
                                     (sg, t') = (if t \<noteq> [] \<and> (hd t = CHR ''+'' \<or> hd t = CHR ''-'')
                                                 then ([hd t], tl t) else ([], t));
                                     (ds, rest) = scanDigits t'
                                 in (if ds = [] then ''e'' else hd s3 # sg @ ds, rest))
                           else ([], s3))
                        in if ep = ''e'' then None else Some (sign @ ip @ fp @ ep, s4))))"

definition hexDigit :: "char \<Rightarrow> nat option" where
  "hexDigit c = (let n = (of_char c :: nat)
                 in if 48 \<le> n \<and> n \<le> 57 then Some (n - 48)
                    else if 97 \<le> n \<and> n \<le> 102 then Some (n - 87)
                    else if 65 \<le> n \<and> n \<le> 70 then Some (n - 55)
                    else None)"

fun hexValue :: "nat \<Rightarrow> string \<Rightarrow> nat option" where
  "hexValue acc [] = Some acc"
| "hexValue acc (c # cs) =
     (case hexDigit c of None \<Rightarrow> None | Some n \<Rightarrow> hexValue (16 * acc + n) cs)"

fun scanString :: "string \<Rightarrow> string \<Rightarrow> (string \<times> string) option" where
  "scanString acc [] = None"
| "scanString acc [c] = (if c = CHR 0x22 then Some (acc, []) else None)"
| "scanString acc (c # d # cs) =
     (if c = CHR 0x22 then Some (acc, d # cs)
      else if c = CHR 0x5C
      then (if d = CHR 0x22 \<or> d = CHR 0x5C \<or> d = CHR ''/'' then scanString (acc @ [d]) cs
            else if d = CHR ''u'' \<and> 4 \<le> length cs
            then (case hexValue 0 (take 4 cs) of
                    None \<Rightarrow> None
                  | Some n \<Rightarrow>
                      if 32 \<le> n \<and> n \<le> 126 then scanString (acc @ [char_of n]) (drop 4 cs)
                      else None)
            else None)
      else if (of_char c :: nat) < 32 \<or> (of_char c :: nat) > 126 then None
      else scanString (acc @ [c]) (d # cs))"

fun jsonAssign :: "string \<Rightarrow> json \<Rightarrow> (string \<times> json) list \<Rightarrow> (string \<times> json) list" where
  "jsonAssign k v [] = [(k, v)]"
| "jsonAssign k v (kv # m) = (if fst kv = k then (k, v) # m else kv # jsonAssign k v m)"

fun parseValue :: "nat \<Rightarrow> string \<Rightarrow> (json \<times> string) option"
  and parseArray :: "nat \<Rightarrow> json list \<Rightarrow> string \<Rightarrow> (json \<times> string) option"
  and parseObject :: "nat \<Rightarrow> (string \<times> json) list \<Rightarrow> string \<Rightarrow> (json \<times> string) option" where
  "parseValue 0 s = None"
| "parseValue (Suc n) s =
     (case skipSpace s of
        [] \<Rightarrow> None
      | c # cs \<Rightarrow>
          if c = CHR ''n'' then (if take 3 cs = ''ull'' then Some (JNull, drop 3 cs) else None)
          else if c = CHR ''t'' then (if take 3 cs = ''rue'' then Some (JBool True, drop 3 cs) else None)
          else if c = CHR ''f'' then (if take 4 cs = ''alse'' then Some (JBool False, drop 4 cs) else None)
          else if c = CHR 0x22
          then (case scanString [] cs of None \<Rightarrow> None | Some (str, rest) \<Rightarrow> Some (JString str, rest))
          else if c = CHR ''[''
          then (let cs' = skipSpace cs
                in if cs' \<noteq> [] \<and> hd cs' = CHR '']'' then Some (JArray [], tl cs')
                   else parseArray n [] cs')
          else if c = CHR ''{''
          then (let cs' = skipSpace cs
                in if cs' \<noteq> [] \<and> hd cs' = CHR ''}'' then Some (JObject [], tl cs')
                   else parseObject n [] cs')
          else (case scanNumber (c # cs) of
                  None \<Rightarrow> None
                | Some (lit, rest) \<Rightarrow> Some (JNumber lit, rest)))"
| "parseArray 0 acc s = None"
| "parseArray (Suc n) acc s =
     (case parseValue n s of
        None \<Rightarrow> None
      | Some (v, rest) \<Rightarrow>
          (case skipSpace rest of
             [] \<Rightarrow> None
           | c # cs \<Rightarrow>
               if c = CHR '','' then parseArray n (acc @ [v]) cs
               else if c = CHR '']'' then Some (JArray (acc @ [v]), cs)
               else None))"
| "parseObject 0 acc s = None"
| "parseObject (Suc n) acc s =
     (case skipSpace s of
        [] \<Rightarrow> None
      | c # cs \<Rightarrow>
          if c \<noteq> CHR 0x22 then None
          else (case scanString [] cs of
                  None \<Rightarrow> None
                | Some (key, rest) \<Rightarrow>
                    (case skipSpace rest of
                       [] \<Rightarrow> None
                     | c2 # cs2 \<Rightarrow>
                         if c2 \<noteq> CHR '':'' then None
                         else (case parseValue n cs2 of
                                 None \<Rightarrow> None
                               | Some (v, rest2) \<Rightarrow>
                                   (case skipSpace rest2 of
                                      [] \<Rightarrow> None
                                    | c3 # cs3 \<Rightarrow>
                                        if c3 = CHR '','' then parseObject n (jsonAssign key v acc) cs3
                                        else if c3 = CHR ''}''
                                        then Some (JObject (jsonAssign key v acc), cs3)
                                        else None)))))"

definition goJSON_Decode :: "string \<Rightarrow> error + json" where
  "goJSON_Decode r =
     (if skipSpace r = [] then Inl EOF
      else (case parseValue (2 * length r + 2) r of
              None \<Rightarrow> Inl (ErrLib ''json: syntax error'')
            | Some (v, rest) \<Rightarrow> Inr v))"

function showNat :: "nat \<Rightarrow> string" where
  "showNat n = (if n < 10 then [char_of (48 + n)] else showNat (n div 10) @ [char_of (48 + n mod 10)])"
  by pat_completeness auto
termination
  by (relation "measure id") auto

definition showInt :: "int \<Rightarrow> string" where
  "showInt i = (if i < 0 then ''-'' @ showNat (nat (- i)) else showNat (nat i))"

fun quoteString :: "string \<Rightarrow> string option" where
  "quoteString [] = Some []"
| "quoteString (c # cs) =
     (case quoteString cs of
        None \<Rightarrow> None
      | Some q \<Rightarrow>
          if c = CHR 0x22 \<or> c = CHR 0x5C then Some (CHR 0x5C # c # q)
          else if c = CHR ''<'' then Some (CHR 0x5C # ''u003c'' @ q)
          else if c = CHR ''>'' then Some (CHR 0x5C # ''u003e'' @ q)
          else if c = CHR ''&'' then Some (CHR 0x5C # ''u0026'' @ q)
          else if (of_char c :: nat) < 32 \<or> (of_char c :: nat) > 126 then None
          else Some (c # q))"

fun insertKey :: "string \<times> 'a \<Rightarrow> (string \<times> 'a) list \<Rightarrow> (string \<times> 'a) list" where
  "insertKey kv [] = [kv]"
| "insertKey kv (x # xs) =
     (if lexordp (\<lambda>a b. (of_char a :: nat) < of_char b) (fst x) (fst kv)
      then x # insertKey kv xs else kv # x # xs)"

definition sortKeys :: "(string \<times> 'a) list \<Rightarrow> (string \<times> 'a) list" where
  "sortKeys kvs = foldr insertKey kvs []"

fun goJSON_write :: "datum \<Rightarrow> string option" where
  "goJSON_write DNil = Some ''null''"
| "goJSON_write (DBool b) = Some (if b then ''true'' else ''false'')"
| "goJSON_write (DInt32 n) = Some (showInt (sint n))"
| "goJSON_write (DInt64 n) = Some (showInt (sint n))"
| "goJSON_write (DNumber n) = Some n"
| "goJSON_write (DString s) =
     (case quoteString s of None \<Rightarrow> None | Some q \<Rightarrow> Some (CHR 0x22 # q @ [CHR 0x22]))"
| "goJSON_write (DArray xs) =
     (if list_all (\<lambda>x. goJSON_write x \<noteq> None) xs
      then Some (''['' @ stringsJoin (map (\<lambda>x. the (goJSON_write x)) xs) '','' @ '']'')
      else None)"
| "goJSON_write (DMap kvs) =
     (let ws = map (\<lambda>kv. (fst kv, goJSON_write (snd kv))) kvs
      in if list_all (\<lambda>kw. quoteString (fst kw) \<noteq> None \<and> snd kw \<noteq> None) ws
         then Some (''{'' @ stringsJoin
                      (map (\<lambda>kw. CHR 0x22 # the (quoteString (fst kw)) @ [CHR 0x22] @ '':''
                                  @ the (snd kw)) (sortKeys ws)) '','' @ ''}'')
         else None)"
| "goJSON_write _ = None"

definition goJSON_Marshal :: "datum \<Rightarrow> error + string" where
  "goJSON_Marshal d =
     (case goJSON_write d of
        None \<Rightarrow> Inl (ErrLib ''json: unsupported value'')
      | Some b \<Rightarrow> Inr b)"

definition goJSON :: jsonlib where
  "goJSON = \<lparr> json_Decode = goJSON_Decode, json_Marshal = goJSON_Marshal \<rparr>"

text \<open>
  For the example of \<^verbatim>\<open>NewCodec\<close>: \<^verbatim>\<open>json.Unmarshal\<close> takes the whole text, so anything but
  white space after the value is an error.  (Number literals stay text here, where
  \<^verbatim>\<open>json.Unmarshal\<close> makes them \<^verbatim>\<open>float64\<close>; the example has none.)  \<open>buildPrimitive\<close> is
  \<^verbatim>\<open>buildCodec\<close> on a schema that is the name of one of the primitives above
  (\<^verbatim>\<open>buildString\<close>, codec.go, 337--376).
\<close>

definition goJSON_Unmarshal :: "string \<Rightarrow> error + json" where
  "goJSON_Unmarshal r =
     (case parseValue (2 * length r + 2) r of
        None \<Rightarrow> Inl (ErrLib ''json: syntax error'')
      | Some (v, rest) \<Rightarrow>
          if skipSpace rest = [] then Inr v
          else Inl (ErrLib ''json: invalid character after top-level value''))"

definition goJSONSchema :: "json schemalib" where
  "goJSONSchema = \<lparr> json_Unmarshal = goJSON_Unmarshal,
                    json_MarshalSchema = (\<lambda>v. goJSON_Marshal (fromJSON v)) \<rparr>"

definition buildPrimitive :: "json \<Rightarrow> error + codec" where
  "buildPrimitive v =
     (case v of
        JString typeName \<Rightarrow>
          if typeName = ''null'' then Inr (nullCodec goJSON)
          else if typeName = ''int'' then Inr (intCodec goJSON)
          else if typeName = ''long'' then Inr (longCodec goJSON)
          else if typeName = ''string'' then Inr (stringCodec goJSON)
          else Inl (newCodecBuildError ''unknown'' ''unknown type name: %s'' [ArgStr typeName] None)
      | _ \<Rightarrow> Inl (newCodecBuildError ''unknown'' ''schema type: %T'' [ArgValue (fromJSON v)] None))"

text \<open>
  Modelled from the spec: \<^verbatim>\<open>newName\<close> and \<^verbatim>\<open>shortname\<close> (name.go is absent), for the
  examples of the record codec.  ``If the supplied name contains a \<open>.\<close>, split on the
  last one: prefix is namespace, suffix is short.  Short name MUST match
  \<open>[A-Za-z_][A-Za-z0-9_]*\<close>.''
\<close>

definition isNameStart :: "char \<Rightarrow> bool" where
  "isNameStart c = (let n = (of_char c :: nat)
                    in (65 \<le> n \<and> n \<le> 90) \<or> (97 \<le> n \<and> n \<le> 122) \<or> n = 95)"

fun lastSegment :: "string \<Rightarrow> string \<Rightarrow> string" where
  "lastSegment acc [] = acc"
| "lastSegment acc (c # cs) = (if c = CHR ''.'' then lastSegment [] cs else lastSegment (acc @ [c]) cs)"

definition fieldShortName :: "string \<Rightarrow> error + string" where
  "fieldShortName someName =
     (let short = lastSegment [] someName
      in if short \<noteq> [] \<and> isNameStart (hd short) \<and> list_all (\<lambda>c. isNameStart c \<or> isDigit c) short
         then Inr short
         else Inl (ErrLib ''invalid name''))"

text \<open>
  Chunking as the spec words it: ``Chunk the input into blocks of at most 10 items
  each''.  Used to state the block structure of an encoded array.
\<close>

function blocksOfTen :: "'a list \<Rightarrow> 'a list list" where
  "blocksOfTen xs = (if xs = [] then [] else take 10 xs # blocksOfTen (drop 10 xs))"
  by pat_completeness auto
termination
  by (relation "measure length") auto

declare blocksOfTen.simps [simp del]
declare arrayEncodeBlocks.simps [simp del]
declare encodeVarint.simps [simp del]
declare showNat.simps [simp del]

section \<open>Block framing, as the spec words it\<close>

text \<open>
  For stating what the array and map decoders accept.  \<open>decodesTo d bs v\<close>: the
  decoder \<open>d\<close> reads exactly the bytes \<open>bs\<close> from the front of any reader and returns
  \<open>v\<close>.  \<open>countBytes cb hb n\<close>: ``read long count; if negative, take absolute value as
  entry count and read an additional long giving block byte size'': \<open>cb\<close> is a long that
  is \<open>n\<close>, with no size (\<open>hb\<close> empty), or \<open>-n\<close>, with the size \<open>hb\<close>.  \<open>arrayStream\<close> and
  \<open>mapStream\<close> are the bytes of a sequence of blocks followed by the bytes \<open>t\<close> of
  the terminating count.
\<close>

definition decodesTo :: "decoderFunction \<Rightarrow> byte list \<Rightarrow> datum \<Rightarrow> bool" where
  "decodesTo d bs v \<longleftrightarrow> (\<forall>rest. d (bs @ rest) = Inr (v, rest))"

definition countBytes :: "byte list \<Rightarrow> byte list \<Rightarrow> nat \<Rightarrow> bool" where
  "countBytes cb hb n \<longleftrightarrow>
     0 < n \<and> n < 2 ^ 63 \<and>
     (decodesTo longDecoder cb (DInt64 (of_nat n)) \<and> hb = []
      \<or> decodesTo longDecoder cb (DInt64 (- of_nat n)) \<and> (\<exists>sz. decodesTo longDecoder hb (DInt64 sz)))"

definition arrayStream ::
  "(byte list \<times> byte list \<times> (byte list \<times> datum) list) list \<Rightarrow> byte list \<Rightarrow> byte list" where
  "arrayStream blocks t =
     concat (map (\<lambda>(cb, hb, items). cb @ hb @ concat (map fst items)) blocks) @ t"

definition mapStream ::
  "(byte list \<times> byte list \<times> ((byte list \<times> string) \<times> (byte list \<times> datum)) list) list
   \<Rightarrow> byte list \<Rightarrow> byte list" where
  "mapStream blocks t =
     concat (map (\<lambda>(cb, hb, items). cb @ hb @ concat (map (\<lambda>((kb, k), (vb, v)). kb @ vb) items))
                 blocks) @ t"

section \<open>Properties\<close>

subsection \<open>Enum\<close>

lemma enumSymbolLoop_index:
  "i < length S \<Longrightarrow> S ! i \<notin> set (take i S) \<Longrightarrow>
   enumSymbolLoop fn S k (S ! i) = (encodeVarint (unat (zigzag64 (of_nat (k + i)))), None)"
proof (induction S arbitrary: i k)
  case Nil
  then show ?case by simp
next
  case (Cons s S)
  show ?case
  proof (cases i)
    case 0
    then show ?thesis by (simp add: orReturn_def longEncoder_def)
  next
    case (Suc j)
    with Cons.prems have "j < length S" "S ! j \<notin> set (take j S)" "s \<noteq> S ! j" by auto
    with Cons.IH [of j "Suc k"] Suc show ?thesis by simp
  qed
qed

text \<open>
  C8.  Let \<open>S\<close> be the symbol list of an enum codec and \<open>i\<close> an index whose symbol does
  not occur earlier in \<open>S\<close> (every index, when the symbols are distinct, as the schema
  of an enum requires).  Encoding an enum value whose symbol is \<open>S ! i\<close> writes exactly
  the zig-zag variable-length encoding of \<open>i\<close> as a long.  Decoding reads a long \<open>idx\<close>
  and returns the enum value of the codec's name with symbol \<open>S ! idx\<close> when
  \<open>0 \<le> idx < length S\<close>, and fails with ``index must be between 0 and
  \<open>length S - 1\<close>'' otherwise.
\<close>

theorem enum_binary_is_symbol_index:
  "(i < length S \<and> S ! i \<notin> set (take i S) \<longrightarrow>
      enumCodec_ef name S (DEnum tn (S ! i)) = (encodeVarint (unat (zigzag64 (of_nat i))), None))
   \<and> (longDecoder r = Inr (DInt64 idx, r') \<longrightarrow>
      enumCodec_df name S r =
        (if 0 \<le> sint idx \<and> sint idx < int (length S)
         then Inr (DEnum name (S ! nat (sint idx)), r')
         else Inl (newDecoderError (''enum ('' @ name @ '')'') ''index must be between 0 and %d''
                     [ArgInt (int (length S) - 1)] None)))"
proof (intro conjI impI)
  assume "i < length S \<and> S ! i \<notin> set (take i S)"
  then show "enumCodec_ef name S (DEnum tn (S ! i)) = (encodeVarint (unat (zigzag64 (of_nat i))), None)"
    using enumSymbolLoop_index [of i S "enumFriendlyName name" 0] by (simp add: enumCodec_ef_def)
next
  assume "longDecoder r = Inr (DInt64 idx, r')"
  then show "enumCodec_df name S r =
        (if 0 \<le> sint idx \<and> sint idx < int (length S)
         then Inr (DEnum name (S ! nat (sint idx)), r')
         else Inl (newDecoderError (''enum ('' @ name @ '')'') ''index must be between 0 and %d''
                     [ArgInt (int (length S) - 1)] None))"
    by (auto simp: enumCodec_df_def enumFriendlyName_def)
qed

theorem enum_binary_is_symbol_index_witness:
  "enumCodec_ef ''E'' [''A'', ''B'', ''C''] (DEnum ''E'' ''B'') = ([2], None)
   \<and> enumCodec_df ''E'' [''A'', ''B'', ''C''] [2] = Inr (DEnum ''E'' ''B'', [])
   \<and> enumCodec_df ''E'' [''A'', ''B'', ''C''] [6] =
       Inl (newDecoderError ''enum (E)'' ''index must be between 0 and %d'' [ArgInt 2] None)"
proof -
  have d2: "longDecoder [2] = Inr (DInt64 1, [])"
    by code_simp
  have d6: "longDecoder [6] = Inr (DInt64 3, [])"
    by code_simp
  have e1: "encodeVarint (unat (zigzag64 1)) = [2]"
    by code_simp
  show ?thesis
    using enum_binary_is_symbol_index [of 1 "[''A'', ''B'', ''C'']" "''E''" "''E''" "[2]" 1 "[]"]
          enum_binary_is_symbol_index [of 1 "[''A'', ''B'', ''C'']" "''E''" "''E''" "[6]" 3 "[]"]
          d2 d6 e1
    by simp
qed

subsection \<open>Array: block structure of the binary encoding\<close>

lemma blocksOfTen_Nil [simp]: "blocksOfTen [] = []"
  by (simp add: blocksOfTen.simps)

lemma blocksOfTen_eq_Nil [simp]: "blocksOfTen xs = [] \<longleftrightarrow> xs = []"
  by (subst blocksOfTen.simps) simp

lemma concat_blocksOfTen: "concat (blocksOfTen xs) = xs"
proof (induction xs rule: blocksOfTen.induct)
  case (1 xs)
  then show ?case by (subst blocksOfTen.simps) auto
qed

lemma length_blocksOfTen: "length (blocksOfTen xs) = (length xs + 9) div 10"
proof (induction xs rule: blocksOfTen.induct)
  case (1 xs)
  show ?case
  proof (cases "xs = []")
    case True
    then show ?thesis by simp
  next
    case False
    then have "length (blocksOfTen xs) = Suc ((length (drop 10 xs) + 9) div 10)"
      using 1 by (subst blocksOfTen.simps) simp
    also have "\<dots> = (length xs + 9) div 10"
    proof (cases "length xs \<le> 10")
      case True
      from False have "Suc 0 \<le> length xs" by (cases xs) simp_all
      with True have "(length xs + 9) div 10 = Suc 0"
        by (intro div_nat_eqI) simp_all
      with True show ?thesis by simp
    next
      case False
      then obtain n where n: "length xs = n + 10"
        by (metis add.commute le_add_diff_inverse linorder_not_le nat_less_le)
      show ?thesis unfolding length_drop n by simp
    qed
    finally show ?thesis .
  qed
qed

lemma nth_blocksOfTen:
  "i < length (blocksOfTen xs) \<Longrightarrow>
   length (blocksOfTen xs ! i) =
     (if Suc i < length (blocksOfTen xs) \<or> length xs mod 10 = 0 then 10 else length xs mod 10)"
proof (induction xs arbitrary: i rule: blocksOfTen.induct)
  case (1 xs)
  from "1.prems" have ne: "xs \<noteq> []" by auto
  then have unf: "blocksOfTen xs = take 10 xs # blocksOfTen (drop 10 xs)"
    by (subst blocksOfTen.simps) simp
  show ?case
  proof (cases i)
    case 0
    show ?thesis
    proof (cases "length xs \<le> 10")
      case True
      then have "blocksOfTen (drop 10 xs) = []" by simp
      with 0 unf True ne show ?thesis
        by (cases "length xs = 10") (auto simp: min_def)
    next
      case False
      then have "blocksOfTen (drop 10 xs) \<noteq> []" by simp
      with 0 unf False show ?thesis by (auto simp: min_def)
    qed
  next
    case (Suc j)
    with "1.prems" unf have j: "j < length (blocksOfTen (drop 10 xs))" by simp
    then have "drop 10 xs \<noteq> []" by auto
    then have big: "10 < length xs" by simp
    then have "(length xs - 10) mod 10 = length xs mod 10"
      by (metis le_add_diff_inverse2 less_or_eq_imp_le mod_add_self2)
    with "1.IH" [OF ne j] Suc unf show ?thesis by simp
  qed
qed

lemma arrayEncodeItems_ok:
  "\<forall>x\<in>set items. snd (vef x) = None \<Longrightarrow>
   arrayEncodeItems vef items = (concat (map (\<lambda>x. fst (vef x)) items), None)"
  by (induction items) (auto simp: andThen_def orReturn_def split: prod.splits option.splits)

lemma longEncoder_zero: "longEncoder (DInt64 0) = ([0], None)"
  by (simp add: longEncoder_def zigzag64_def encodeVarint.simps)

lemma arrayEncodeBlocks_ok:
  "\<forall>x\<in>set xs. snd (vef x) = None \<Longrightarrow>
   arrayEncodeBlocks vef xs k =
     (concat (map (\<lambda>b. encodeVarint (unat (zigzag64 (of_nat (length b))))
                         @ concat (map (\<lambda>x. fst (vef x)) b))
                  (blocksOfTen (drop k xs))) @ [0], None)"
proof (induction vef xs k rule: arrayEncodeBlocks.induct)
  case (1 vef someArray leftIndex)
  show ?case
  proof (cases "leftIndex < length someArray")
    case False
    then show ?thesis
      by (subst arrayEncodeBlocks.simps) (simp add: longEncoder_zero)
  next
    case True
    define items where "items = take 10 (drop leftIndex someArray)"
    have items_alt:
      "take ((if leftIndex + 10 > length someArray then length someArray else leftIndex + 10)
             - leftIndex) (drop leftIndex someArray) = items"
      unfolding items_def by (cases "leftIndex + 10 \<le> length someArray") auto
    have ok: "\<forall>x\<in>set items. snd (vef x) = None"
      using "1.prems" unfolding items_def by (meson in_set_dropD in_set_takeD)
    have ne: "drop leftIndex someArray \<noteq> []" using True by simp
    have unf: "blocksOfTen (drop leftIndex someArray) =
                 items # blocksOfTen (drop (leftIndex + 10) someArray)"
      using ne unfolding items_def by (subst blocksOfTen.simps) (simp add: add.commute)
    have IH: "arrayEncodeBlocks vef someArray (leftIndex + 10) =
      (concat (map (\<lambda>b. encodeVarint (unat (zigzag64 (of_nat (length b))))
                         @ concat (map (\<lambda>x. fst (vef x)) b))
                  (blocksOfTen (drop (leftIndex + 10) someArray))) @ [0], None)"
      using "1.IH" [OF True refl refl refl] "1.prems" by (simp add: itemsPerArrayBlock_def)
    have step: "arrayEncodeBlocks vef someArray leftIndex =
       andThen (orReturn (\<lambda>e. newEncoderError arrayFriendlyName [] [] (Some e))
                                 (longEncoder (DInt64 (of_nat (length items)))))
                 (andThen (arrayEncodeItems vef items)
                          (arrayEncodeBlocks vef someArray (leftIndex + 10)))"
      by (subst arrayEncodeBlocks.simps)
         (simp only: True if_True Let_def itemsPerArrayBlock_def items_alt)
    show ?thesis
      unfolding step IH unf arrayEncodeItems_ok [OF ok]
      by (simp add: andThen_def orReturn_def longEncoder_def)
  qed
qed

text \<open>
  C6.  When every element of the input sequence \<open>xs\<close> encodes without error, the array
  encoder writes \<open>\<lceil>L/10\<rceil>\<close> blocks for \<open>L = length xs\<close>: the blocks partition \<open>xs\<close> in
  order, every block but the last holds 10 elements and the last holds \<open>L mod 10\<close>
  elements when that is not zero (10 otherwise); each block is its element count as a
  zig-zag long followed by its encoded elements, and the single byte 0 (the long 0)
  ends the encoding.  For the empty sequence there is no block, only the byte 0.
\<close>

theorem array_encode_blocks_of_ten:
  "\<forall>x\<in>set xs. snd (vef x) = None \<Longrightarrow>
   \<exists>blocks. concat blocks = xs
     \<and> length blocks = (length xs + 9) div 10
     \<and> (\<forall>i<length blocks. length (blocks ! i) =
           (if Suc i < length blocks \<or> length xs mod 10 = 0 then 10 else length xs mod 10))
     \<and> arrayCodec_ef vef (DArray xs) =
         (concat (map (\<lambda>b. encodeVarint (unat (zigzag64 (of_nat (length b))))
                            @ concat (map (\<lambda>x. fst (vef x)) b)) blocks) @ [0], None)"
  using arrayEncodeBlocks_ok [of xs vef 0]
  by (intro exI [of _ "blocksOfTen xs"])
     (simp add: concat_blocksOfTen length_blocksOfTen nth_blocksOfTen arrayCodec_ef_def)

theorem array_encode_blocks_of_ten_witness:
  "(\<exists>blocks.
         concat blocks = map DInt32 [1, 2, 3, 4, 5, 6, 7, 8, 9, 10, 11, 12, 13, 14, 15, 16, 17, 18,
                                     19, 20, 21, 22, 23, 24, 25]
       \<and> map length blocks = [10, 10, 5]
       \<and> arrayCodec_ef intEncoder
            (DArray (map DInt32 [1, 2, 3, 4, 5, 6, 7, 8, 9, 10, 11, 12, 13, 14, 15, 16, 17, 18,
                                 19, 20, 21, 22, 23, 24, 25])) =
           (concat (map (\<lambda>b. encodeVarint (unat (zigzag64 (of_nat (length b))))
                              @ concat (map (\<lambda>x. fst (intEncoder x)) b)) blocks) @ [0], None))
   \<and> arrayCodec_ef intEncoder
        (DArray (map DInt32 [1, 2, 3, 4, 5, 6, 7, 8, 9, 10, 11, 12, 13, 14, 15, 16, 17, 18,
                             19, 20, 21, 22, 23, 24, 25])) =
       ([20, 2, 4, 6, 8, 10, 12, 14, 16, 18, 20,
         20, 22, 24, 26, 28, 30, 32, 34, 36, 38, 40,
         10, 42, 44, 46, 48, 50,
         0], None)"
  (is "(\<exists>blocks. ?P blocks) \<and> ?bytes")
proof -
  have ok: "\<forall>x\<in>set (map DInt32 [1, 2, 3, 4, 5, 6, 7, 8, 9, 10, 11, 12, 13, 14, 15, 16, 17, 18, 19,
                                  20, 21, 22, 23, 24, 25]). snd (intEncoder x) = None"
    by (simp add: intEncoder_def)
  have bytes: ?bytes
    by code_simp
  from array_encode_blocks_of_ten [OF ok] obtain blocks where
    c: "concat blocks = map DInt32 [1, 2, 3, 4, 5, 6, 7, 8, 9, 10, 11, 12, 13, 14, 15, 16, 17, 18,
                                     19, 20, 21, 22, 23, 24, 25]"
    and l: "length blocks = 3"
    and n: "\<forall>i<length blocks. length (blocks ! i) = (if Suc i < length blocks then 10 else 5)"
    and e: "arrayCodec_ef intEncoder
            (DArray (map DInt32 [1, 2, 3, 4, 5, 6, 7, 8, 9, 10, 11, 12, 13, 14, 15, 16, 17, 18,
                                 19, 20, 21, 22, 23, 24, 25])) =
           (concat (map (\<lambda>b. encodeVarint (unat (zigzag64 (of_nat (length b))))
                              @ concat (map (\<lambda>x. fst (intEncoder x)) b)) blocks) @ [0], None)"
    by auto
  from l obtain b0 b1 b2 where bl: "blocks = [b0, b1, b2]"
    by (auto simp: length_Suc_conv numeral_3_eq_3)
  from n [rule_format, of 0] n [rule_format, of 1] n [rule_format, of 2]
  have "length b0 = 10" "length b1 = 10" "length b2 = 5"
    unfolding bl by simp_all
  then have ml: "map length blocks = [10, 10, 5]" by (simp add: bl)
  have "?P blocks" by (intro conjI) (rule c ml e)+
  then have "\<exists>blocks. ?P blocks" by (rule exI)
  with bytes show ?thesis by (intro conjI)
qed

subsection \<open>Union\<close>

lemma unionMembersLoop_allowedNames:
  "allowedNames (unionMembersLoop ms idx t) = allowedNames t @ map (\<lambda>m. nm (fst m)) ms"
  by (induction ms idx t rule: unionMembersLoop.induct) simp_all

lemma unionMembersLoop_miss:
  "name \<notin> set (map (\<lambda>m. nm (fst m)) ms) \<Longrightarrow>
   nameToUnionEncoder (unionMembersLoop ms idx t) name = nameToUnionEncoder t name"
  by (induction ms idx t rule: unionMembersLoop.induct) simp_all

lemma unionMembersLoop_hit:
  "nm c = name \<Longrightarrow> name \<notin> set (map (\<lambda>m. nm (fst m)) post) \<Longrightarrow>
   nameToUnionEncoder (unionMembersLoop (pre @ (c, ut) # post) idx t) name =
     Some \<lparr> ue_ef = ef c, ue_jef = jef c, ue_tn = ut, ue_index = of_nat (idx + length pre) \<rparr>"
proof (induction pre arbitrary: idx t)
  case Nil
  then show ?case by (simp add: unionMembersLoop_miss)
next
  case (Cons p pre)
  obtain c' ut' where p: "p = (c', ut')" by (cases p)
  from Cons.IH [OF Cons.prems, of "Suc idx"] show ?case by (simp add: p)
qed

text \<open>
  C1.  Let the union codec be built from the member list \<open>ms\<close>, and let \<open>name\<close> be the
  discriminator name derived from the datum.  When no member codec has that name (it is
  no key of the encoder table), \<^verbatim>\<open>Encode\<close> returns the error ``datum ought match schema:
  expected: \<open>member names\<close>; received: \<open>name\<close>'' and has written no byte.  When \<open>c\<close> is
  the member registered under \<open>name\<close> (the last one of that name) and stands at index
  \<open>length pre\<close>, \<^verbatim>\<open>Encode\<close> writes that index as a zig-zag int, then what \<open>c\<close>'s binary
  encoder writes for the datum, and returns that encoder's error, if any, wrapped.
\<close>

theorem union_encode_index_then_member:
  "unionDatumName datum = Inr name \<longrightarrow>
     (name \<notin> set (map (\<lambda>m. nm (fst m)) ms) \<longrightarrow>
        unionCodec_ef (makeUnionTables ms) datum =
          ([], Some (newEncoderError ''union (union)''
                       (''datum ought match schema: expected: ''
                          @ stringsJoin (map (\<lambda>m. nm (fst m)) ms) '', ''
                          @ ''; received: '' @ name) [] None)))
   \<and> (ms = pre @ (c, ut) # post \<and> nm c = name \<and> name \<notin> set (map (\<lambda>m. nm (fst m)) post) \<longrightarrow>
        unionCodec_ef (makeUnionTables ms) datum =
          (encodeVarint (unat (zigzag32 (of_nat (length pre)))) @ fst (ef c datum),
           map_option (wrapErr (\<lambda>e. newEncoderError ''union (union)'' [] [] (Some e)))
                      (snd (ef c datum))))"
proof (intro impI conjI)
  assume n: "unionDatumName datum = Inr name"
  assume "name \<notin> set (map (\<lambda>m. nm (fst m)) ms)"
  then have "nameToUnionEncoder (makeUnionTables ms) name = None"
    by (simp add: makeUnionTables_def unionMembersLoop_miss)
  moreover have "allowedNames (makeUnionTables ms) = map (\<lambda>m. nm (fst m)) ms"
    by (simp add: makeUnionTables_def unionMembersLoop_allowedNames)
  ultimately show "unionCodec_ef (makeUnionTables ms) datum =
          ([], Some (newEncoderError ''union (union)''
                       (''datum ought match schema: expected: ''
                          @ stringsJoin (map (\<lambda>m. nm (fst m)) ms) '', ''
                          @ ''; received: '' @ name) [] None))"
    using n by (simp add: unionCodec_ef_def invalidType_def unionFriendlyName_def)
next
  assume n: "unionDatumName datum = Inr name"
  assume "ms = pre @ (c, ut) # post \<and> nm c = name \<and> name \<notin> set (map (\<lambda>m. nm (fst m)) post)"
  then have "nameToUnionEncoder (makeUnionTables ms) name =
     Some \<lparr> ue_ef = ef c, ue_jef = jef c, ue_tn = ut, ue_index = of_nat (length pre) \<rparr>"
    using unionMembersLoop_hit [of c name post pre ut 0] by (simp add: makeUnionTables_def)
  then show "unionCodec_ef (makeUnionTables ms) datum =
          (encodeVarint (unat (zigzag32 (of_nat (length pre)))) @ fst (ef c datum),
           map_option (wrapErr (\<lambda>e. newEncoderError ''union (union)'' [] [] (Some e)))
                      (snd (ef c datum)))"
    using n
    by (cases "ef c datum")
       (auto simp: unionCodec_ef_def unionFriendlyName_def intEncoder_def andThen_def orReturn_def
             split: option.splits)
qed

theorem union_encode_index_then_member_witness:
  "unionCodec_ef (makeUnionTables [(nullCodec goJSON, ''null''), (intCodec goJSON, ''int'')])
     (DString ''x'')
     = ([], Some (newEncoderError ''union (union)''
                    ''datum ought match schema: expected: null, int32; received: string'' [] None))
   \<and> unionCodec_ef (makeUnionTables [(nullCodec goJSON, ''null''), (intCodec goJSON, ''int'')])
     (DInt32 42) = ([0x02, 0x54], None)"
proof -
  have i42: "intEncoder (DInt32 42) = ([0x54], None)" by code_simp
  have e1: "encodeVarint (unat (zigzag32 1)) = [0x02]" by code_simp
  have nms: "nm (nullCodec goJSON) = ''null''" "nm (intCodec goJSON) = ''int32''"
    "ef (intCodec goJSON) = intEncoder"
    by (simp_all add: intCodec_def nullCodec_def)
  show ?thesis
    using union_encode_index_then_member
            [of "DString ''x''" "''string''"
                "[(nullCodec goJSON, ''null''), (intCodec goJSON, ''int'')]"]
          union_encode_index_then_member
            [of "DInt32 42" "''int32''"
                "[(nullCodec goJSON, ''null''), (intCodec goJSON, ''int'')]"
                "[(nullCodec goJSON, ''null'')]" "intCodec goJSON" "''int''" "[]"]
    by (simp add: unionDatumName_def nms i42 e1)
qed

subsection \<open>Record\<close>

lemma recordEncodeFields_ok:
  "idx + length fs \<le> length cs \<Longrightarrow>
   \<forall>f\<in>set fs. Datum f \<noteq> DNil \<or> hasDefault f \<Longrightarrow>
   \<forall>i<length fs. snd (ef (cs ! (idx + i)) (if Datum (fs ! i) \<noteq> DNil then Datum (fs ! i) else defval (fs ! i))) = None \<Longrightarrow>
   recordEncodeFields fn cs idx fs =
     (concat (map (\<lambda>(c, f). fst (ef c (if Datum f \<noteq> DNil then Datum f else defval f)))
                  (zip (drop idx cs) fs)), None)"
proof (induction fs arbitrary: idx)
  case Nil
  then show ?case by simp
next
  case (Cons f fs)
  from Cons.prems(1) have idx: "idx < length cs" by simp
  then have dr: "drop idx cs = cs ! idx # drop (Suc idx) cs"
    by (simp add: Cons_nth_drop_Suc)
  from Cons.prems(3) have hd: "snd (ef (cs ! idx) (if Datum f \<noteq> DNil then Datum f else defval f)) = None"
    by (metis add.right_neutral length_greater_0_conv list.distinct(1) nth_Cons_0)
  have tl: "\<forall>i<length fs. snd (ef (cs ! (Suc idx + i)) (if Datum (fs ! i) \<noteq> DNil then Datum (fs ! i) else defval (fs ! i))) = None"
  proof (intro allI impI)
    fix i assume "i < length fs"
    then have "Suc i < length (f # fs)" by simp
    from Cons.prems(3) [rule_format, OF this] show "snd (ef (cs ! (Suc idx + i)) (if Datum (fs ! i) \<noteq> DNil then Datum (fs ! i) else defval (fs ! i))) = None"
      by (simp cong: if_cong)
  qed
  have IH: "recordEncodeFields fn cs (Suc idx) fs =
     (concat (map (\<lambda>(c, f). fst (ef c (if Datum f \<noteq> DNil then Datum f else defval f)))
                  (zip (drop (Suc idx) cs) fs)), None)"
    using Cons.IH [of "Suc idx"] Cons.prems(1,2) tl by simp
  from Cons.prems(2) have v: "recordFieldValue fn f = Inr (if Datum f \<noteq> DNil then Datum f else defval f)"
    by (auto simp: recordFieldValue_def)
  show ?case
    using hd idx
    by (cases "ef (cs ! idx) (if Datum f \<noteq> DNil then Datum f else defval f)")
       (simp add: v IH dr andThen_def orReturn_def)
qed

lemma recordEncodeFields_missing:
  "idx + length pre < length cs \<Longrightarrow>
   \<forall>f\<in>set pre. Datum f \<noteq> DNil \<or> hasDefault f \<Longrightarrow>
   \<forall>i<length pre. snd (ef (cs ! (idx + i)) (if Datum (pre ! i) \<noteq> DNil then Datum (pre ! i) else defval (pre ! i))) = None \<Longrightarrow>
   Datum g = DNil \<Longrightarrow> \<not> hasDefault g \<Longrightarrow>
   recordEncodeFields fn cs idx (pre @ g # post) =
     (concat (map (\<lambda>(c, f). fst (ef c (if Datum f \<noteq> DNil then Datum f else defval f)))
                  (zip (drop idx cs) pre)),
      Some (newEncoderError fn ''field has no data and no default set: %v'' [ArgStr (fName g)] None))"
proof (induction pre arbitrary: idx)
  case Nil
  then show ?case by (simp add: recordFieldValue_def)
next
  case (Cons f fs)
  from Cons.prems(1) have idx: "idx < length cs" by simp
  then have dr: "drop idx cs = cs ! idx # drop (Suc idx) cs"
    by (simp add: Cons_nth_drop_Suc)
  from Cons.prems(3) have hd: "snd (ef (cs ! idx) (if Datum f \<noteq> DNil then Datum f else defval f)) = None"
    by (metis add.right_neutral length_greater_0_conv list.distinct(1) nth_Cons_0)
  have tl: "\<forall>i<length fs. snd (ef (cs ! (Suc idx + i)) (if Datum (fs ! i) \<noteq> DNil then Datum (fs ! i) else defval (fs ! i))) = None"
  proof (intro allI impI)
    fix i assume "i < length fs"
    then have "Suc i < length (f # fs)" by simp
    from Cons.prems(3) [rule_format, OF this] show "snd (ef (cs ! (Suc idx + i)) (if Datum (fs ! i) \<noteq> DNil then Datum (fs ! i) else defval (fs ! i))) = None"
      by (simp cong: if_cong)
  qed
  have IH: "recordEncodeFields fn cs (Suc idx) (fs @ g # post) =
     (concat (map (\<lambda>(c, f). fst (ef c (if Datum f \<noteq> DNil then Datum f else defval f)))
                  (zip (drop (Suc idx) cs) fs)),
      Some (newEncoderError fn ''field has no data and no default set: %v'' [ArgStr (fName g)] None))"
    using Cons.IH [of "Suc idx"] Cons.prems tl by simp
  from Cons.prems(2) have v: "recordFieldValue fn f = Inr (if Datum f \<noteq> DNil then Datum f else defval f)"
    by (auto simp: recordFieldValue_def)
  show ?case
    using hd idx
    by (cases "ef (cs ! idx) (if Datum f \<noteq> DNil then Datum f else defval f)")
       (simp add: v IH dr andThen_def orReturn_def)
qed

text \<open>
  What the closure does with the fields it is given.  For a record value \<open>r\<close> whose
  name is the codec's and which has no more fields than the schema declares,
  \<^verbatim>\<open>Encode\<close> goes through the fields of \<open>r\<close> in order and encodes, with the codec of the
  declared field at the same position, the field's datum when it is present and its
  default otherwise.  When every field has a datum or a default and
  every field encodes, the output is the concatenation of the field encodings and
  nothing else.  When a field \<open>g\<close> has neither, and the fields before it encode, the
  call returns ``field has no data and no default set'' for \<open>g\<close> after the encodings of
  the fields before it.
\<close>

lemma recordCodec_ef_fields:
  "Name r = templateName \<and> length (Fields r) \<le> length fieldCodecs \<longrightarrow>
     ((\<forall>f\<in>set (Fields r). Datum f \<noteq> DNil \<or> hasDefault f)
      \<and> (\<forall>i<length (Fields r).
            snd (ef (fieldCodecs ! i)
                    (if Datum (Fields r ! i) \<noteq> DNil then Datum (Fields r ! i)
                     else defval (Fields r ! i))) = None)
      \<longrightarrow> recordCodec_ef templateName fieldCodecs (DRecord (Some r)) =
            (concat (map (\<lambda>(c, f). fst (ef c (if Datum f \<noteq> DNil then Datum f else defval f)))
                         (zip fieldCodecs (Fields r))), None))
   \<and> (Fields r = pre @ g # post \<and> Datum g = DNil \<and> \<not> hasDefault g
      \<and> (\<forall>f\<in>set pre. Datum f \<noteq> DNil \<or> hasDefault f)
      \<and> (\<forall>i<length pre.
            snd (ef (fieldCodecs ! i)
                    (if Datum (pre ! i) \<noteq> DNil then Datum (pre ! i) else defval (pre ! i))) = None)
      \<longrightarrow> recordCodec_ef templateName fieldCodecs (DRecord (Some r)) =
            (concat (map (\<lambda>(c, f). fst (ef c (if Datum f \<noteq> DNil then Datum f else defval f)))
                         (zip fieldCodecs pre)),
             Some (newEncoderError (''record ('' @ templateName @ '')'')
                     ''field has no data and no default set: %v'' [ArgStr (fName g)] None)))"
proof (intro impI conjI; elim conjE)
  assume "Name r = templateName" "length (Fields r) \<le> length fieldCodecs"
    "\<forall>f\<in>set (Fields r). Datum f \<noteq> DNil \<or> hasDefault f"
    "\<forall>i<length (Fields r).
            snd (ef (fieldCodecs ! i)
                    (if Datum (Fields r ! i) \<noteq> DNil then Datum (Fields r ! i)
                     else defval (Fields r ! i))) = None"
  then show "recordCodec_ef templateName fieldCodecs (DRecord (Some r)) =
            (concat (map (\<lambda>(c, f). fst (ef c (if Datum f \<noteq> DNil then Datum f else defval f)))
                         (zip fieldCodecs (Fields r))), None)"
    using recordEncodeFields_ok [of 0 "Fields r" fieldCodecs "recordFriendlyName templateName"]
    by (simp add: recordCodec_ef_def)
next
  assume "Name r = templateName" "length (Fields r) \<le> length fieldCodecs"
    "Fields r = pre @ g # post" "Datum g = DNil" "\<not> hasDefault g"
    "\<forall>f\<in>set pre. Datum f \<noteq> DNil \<or> hasDefault f"
    "\<forall>i<length pre.
            snd (ef (fieldCodecs ! i)
                    (if Datum (pre ! i) \<noteq> DNil then Datum (pre ! i) else defval (pre ! i))) = None"
  then show "recordCodec_ef templateName fieldCodecs (DRecord (Some r)) =
            (concat (map (\<lambda>(c, f). fst (ef c (if Datum f \<noteq> DNil then Datum f else defval f)))
                         (zip fieldCodecs pre)),
             Some (newEncoderError (''record ('' @ templateName @ '')'')
                     ''field has no data and no default set: %v'' [ArgStr (fName g)] None))"
    using recordEncodeFields_missing [of 0 pre fieldCodecs g "recordFriendlyName templateName" post]
    by (simp add: recordCodec_ef_def recordFriendlyName_def)
qed

lemma recordCodec_ef_fields_example:
  "recordCodec_ef ''R'' [intCodec goJSON, stringCodec goJSON]
     (DRecord (Some (Record ''R'' [RecordField ''a'' DNil True (DInt32 7),
                                   RecordField ''b'' (DString ''hi'') False DNil])))
     = ([0x0E, 0x04, 0x68, 0x69], None)
   \<and> recordCodec_ef ''R'' [intCodec goJSON, stringCodec goJSON]
     (DRecord (Some (Record ''R'' [RecordField ''a'' (DInt32 7) False DNil,
                                   RecordField ''b'' DNil False DNil])))
     = ([0x0E], Some (newEncoderError ''record (R)''
                        ''field has no data and no default set: %v'' [ArgStr ''b''] None))"
proof -
  have i7: "intEncoder (DInt32 7) = ([0x0E], None)" by code_simp
  have hi: "stringEncoder (DString ''hi'') = ([0x04, 0x68, 0x69], None)" by code_simp
  have efs: "ef (intCodec goJSON) = intEncoder" "ef (stringCodec goJSON) = stringEncoder"
    by (simp_all add: intCodec_def stringCodec_def)
  show ?thesis
    using recordCodec_ef_fields
            [of "Record ''R'' [RecordField ''a'' DNil True (DInt32 7),
                               RecordField ''b'' (DString ''hi'') False DNil]"
                "''R''" "[intCodec goJSON, stringCodec goJSON]"]
          recordCodec_ef_fields
            [of "Record ''R'' [RecordField ''a'' (DInt32 7) False DNil,
                               RecordField ''b'' DNil False DNil]"
                "''R''" "[intCodec goJSON, stringCodec goJSON]"
                "[RecordField ''a'' (DInt32 7) False DNil]" "RecordField ''b'' DNil False DNil" "[]"]
    by (auto simp: nth_Cons' less_Suc_eq efs i7 hi)
qed

text \<open>
  C4.  The claim has \<^verbatim>\<open>Encode\<close> go through the declared fields, for every record value of
  the codec's name, and fail for a declared field with neither datum nor default.  The
  closure checks the name of the value only and then ranges over the fields the value
  holds, pairing them by position with the codecs of the declared fields.  For the
  record \<open>R\<close> declared with the \<^verbatim>\<open>int\<close> fields \<open>a\<close> and \<open>b\<close>, neither with a default, a
  value named \<open>R\<close> that holds \<open>a = 7\<close> alone is written as the single byte \<open>0x0E\<close> with no
  error, and a value that holds a third field makes the closure index \<open>fieldCodecs\<close>
  out of range, after the bytes of \<open>a\<close> and \<open>b\<close> are written.
\<close>

theorem record_encode_ranges_over_value_fields:
  "recordCodec_ef ''R'' [intCodec goJSON, intCodec goJSON]
     (DRecord (Some (Record ''R'' [RecordField ''a'' (DInt32 7) False DNil])))
     = ([0x0E], None)
   \<and> recordCodec_ef ''R'' [intCodec goJSON, intCodec goJSON]
     (DRecord (Some (Record ''R'' [RecordField ''a'' (DInt32 7) False DNil,
                                   RecordField ''b'' (DInt32 8) False DNil,
                                   RecordField ''c'' (DInt32 9) False DNil])))
     = ([0x0E, 0x10], Some (Panic ''index out of range''))"
proof -
  have i7: "intEncoder (DInt32 7) = ([0x0E], None)" by code_simp
  have i8: "intEncoder (DInt32 8) = ([0x10], None)" by code_simp
  show ?thesis
    by (simp add: recordCodec_ef_def recordFieldValue_def intCodec_def i7 i8
                  andThen_def orReturn_def)
qed

subsection \<open>JSON decoders of int and long\<close>

lemma goJSON_sel:
  "json_Decode goJSON = goJSON_Decode" "json_Marshal goJSON = goJSON_Marshal"
  by (simp_all add: goJSON_def)

lemma intJSONDecoder_narrows:
  "json_Decode lib r = Inr (JNumber n) \<Longrightarrow> Number_Int64 n = Inr i \<Longrightarrow>
   intJSONDecoder lib r = Inr (DInt32 (ucast i))"
  by (simp add: intJSONDecoder_def newJSONDecoder_def)

lemma longJSONDecoder_Inr:
  assumes "longJSONDecoder lib r = Inr d"
  shows "\<exists>n i. json_Decode lib r = Inr (JNumber n) \<and> Number_Int64 n = Inr i \<and> d = DInt64 i"
proof (cases "json_Decode lib r")
  case (Inl e)
  with assms show ?thesis by (simp add: longJSONDecoder_def newJSONDecoder_def)
next
  case (Inr v)
  with assms show ?thesis
    by (cases v; cases "Number_Int64 (case v of JNumber n \<Rightarrow> n | _ \<Rightarrow> [])")
       (simp_all add: longJSONDecoder_def newJSONDecoder_def)
qed

text \<open>
  C3.  The JSON text \<^verbatim>\<open>2147483648\<close> is an integer outside the range of an Avro int.  The
  int decoder parses it as a 64-bit integer and converts it with \<^verbatim>\<open>int32(someInt)\<close>: it
  returns \<open>-2147483648\<close> and no error.
\<close>

theorem int_json_decoder_truncates:
  "intJSONDecoder goJSON ''2147483648'' = Inr (DInt32 (- 2147483648))"
proof -
  have d: "json_Decode goJSON ''2147483648'' = Inr (JNumber ''2147483648'')"
    unfolding goJSON_sel by code_simp
  have n: "Number_Int64 ''2147483648'' = Inr 2147483648"
    by (simp add: Number_Int64_def decimalValue_def isDigit_def)
  show ?thesis
    using intJSONDecoder_narrows [OF d n] by simp
qed

subsection \<open>JSON decoding of fixed\<close>

lemma fixedCodec_jdf_never_returns: "fixedCodec_jdf lib name sz r \<noteq> Inr d"
proof (cases "json_Decode lib r")
  case (Inl e)
  then show ?thesis by (simp add: fixedCodec_jdf_def newJSONDecoder_def)
next
  case (Inr v)
  then show ?thesis by (cases v) (simp_all add: fixedCodec_jdf_def newJSONDecoder_def)
qed

lemma fixedCodec_jdf_panics:
  "json_Decode lib r = Inr v \<Longrightarrow> \<exists>p. fixedCodec_jdf lib name sz r = Inl (Panic p)"
  by (cases v) (simp_all add: fixedCodec_jdf_def newJSONDecoder_def)

text \<open>
  C10.  On the valid JSON string \<^verbatim>\<open>"ab"\<close> the JSON decoder of a fixed codec of size 2
  panics: the generic decoder yields a Go string, and the assertion
  \<^verbatim>\<open>someValue.([]byte)\<close> fails.
\<close>

theorem fixed_json_decode_panics:
  "fixedCodec_jdf goJSON ''F'' 2 ''\"ab\"'' =
     Inl (Panic ''interface conversion: interface {} is string, not []uint8'')"
  by code_simp

subsection \<open>Union: JSON decoding\<close>

lemma unionMembersLoop_json_miss:
  "k \<notin> set (map snd ms) \<Longrightarrow>
   nameToJSONDecoder (unionMembersLoop ms idx t) k = nameToJSONDecoder t k"
  by (induction ms idx t rule: unionMembersLoop.induct) simp_all

lemma unionMembersLoop_json_hit:
  "k \<notin> set (map snd post) \<Longrightarrow>
   nameToJSONDecoder (unionMembersLoop (pre @ (c, k) # post) idx t) k = Some (jdf c)"
proof (induction pre arbitrary: idx t)
  case Nil
  then show ?case by (simp add: unionMembersLoop_json_miss)
next
  case (Cons p pre)
  obtain c' ut' where p: "p = (c', ut')" by (cases p)
  from Cons.IH [OF Cons.prems, of "Suc idx"] show ?case by (simp add: p)
qed

text \<open>
  What \<^verbatim>\<open>JSONDecode\<close> of a union built from the members \<open>ms\<close> does on the shapes it
  tells apart.  It parses one JSON value.  For \<^verbatim>\<open>null\<close> the key is \<^verbatim>\<open>"null"\<close> and the value
  \<^verbatim>\<open>null\<close>; for an object with exactly one entry they are that entry's key and value.
  When no member has the key as its union type name the call fails with ``unknown
  union type''; otherwise the value is serialized again and handed to the JSON decoder
  of the member registered under the key.  A boolean, a number, a string or an array
  fails, and so does a text the JSON library rejects.
\<close>

theorem union_json_decode_by_key:
  "(json_Decode lib r = Inr v \<and> (v = JNull \<and> k = ''null'' \<and> v' = JNull \<or> v = JObject [(k, v')]) \<longrightarrow>
      (k \<notin> set (map snd ms) \<longrightarrow>
         unionCodec_jdf lib (makeUnionTables ms) r =
           Inl (newDecoderError ''union (union)'' ''unknown union type %v'' [ArgStr k] None))
    \<and> (ms = pre @ (c, k) # post \<and> k \<notin> set (map snd post) \<longrightarrow>
         unionCodec_jdf lib (makeUnionTables ms) r =
           (case json_Marshal lib (fromJSON v') of
              Inl err \<Rightarrow> Inl (newDecoderError ''union (union)'' ''union json decode failed: %v''
                                 [] (Some err))
            | Inr b \<Rightarrow> jdf c b)))
   \<and> (json_Decode lib r = Inr v
        \<and> (case v of JBool _ \<Rightarrow> True | JNumber _ \<Rightarrow> True | JString _ \<Rightarrow> True | JArray _ \<Rightarrow> True
                    | _ \<Rightarrow> False) \<longrightarrow>
      unionCodec_jdf lib (makeUnionTables ms) r =
        Inl (newDecoderError ''union (union)'' ''unsupported union value %v''
               [ArgValue (fromJSON v)] None))
   \<and> (json_Decode lib r = Inl err \<longrightarrow>
      unionCodec_jdf lib (makeUnionTables ms) r =
        Inl (newDecoderError ''union (union)'' [] [] (Some err)))"
proof (intro conjI impI; (elim conjE)?)
  assume d: "json_Decode lib r = Inr v"
    and sh: "v = JNull \<and> k = ''null'' \<and> v' = JNull \<or> v = JObject [(k, v')]"
    and miss: "k \<notin> set (map snd ms)"
  from sh have tn: "unionJSONTypeName v = Inr (k, v')"
    by (auto simp: unionJSONTypeName_def)
  from miss have "nameToJSONDecoder (makeUnionTables ms) k = None"
    by (simp add: makeUnionTables_def unionMembersLoop_json_miss)
  with d tn show "unionCodec_jdf lib (makeUnionTables ms) r =
           Inl (newDecoderError ''union (union)'' ''unknown union type %v'' [ArgStr k] None)"
    by (simp add: unionCodec_jdf_def unionFriendlyName_def)
next
  assume d: "json_Decode lib r = Inr v"
    and sh: "v = JNull \<and> k = ''null'' \<and> v' = JNull \<or> v = JObject [(k, v')]"
    and ms: "ms = pre @ (c, k) # post" and last: "k \<notin> set (map snd post)"
  from sh have tn: "unionJSONTypeName v = Inr (k, v')"
    by (auto simp: unionJSONTypeName_def)
  from ms last have "nameToJSONDecoder (makeUnionTables ms) k = Some (jdf c)"
    by (simp add: makeUnionTables_def unionMembersLoop_json_hit)
  with d tn show "unionCodec_jdf lib (makeUnionTables ms) r =
           (case json_Marshal lib (fromJSON v') of
              Inl err \<Rightarrow> Inl (newDecoderError ''union (union)'' ''union json decode failed: %v''
                                 [] (Some err))
            | Inr b \<Rightarrow> jdf c b)"
    by (simp add: unionCodec_jdf_def unionFriendlyName_def cong: sum.case_cong)
next
  assume "json_Decode lib r = Inr v"
    "case v of JBool _ \<Rightarrow> True | JNumber _ \<Rightarrow> True | JString _ \<Rightarrow> True | JArray _ \<Rightarrow> True
                    | _ \<Rightarrow> False"
  then show "unionCodec_jdf lib (makeUnionTables ms) r =
        Inl (newDecoderError ''union (union)'' ''unsupported union value %v''
               [ArgValue (fromJSON v)] None)"
    by (cases v) (simp_all add: unionCodec_jdf_def unionJSONTypeName_def unionFriendlyName_def)
next
  assume "json_Decode lib r = Inl err"
  then show "unionCodec_jdf lib (makeUnionTables ms) r =
        Inl (newDecoderError ''union (union)'' [] [] (Some err))"
    by (simp add: unionCodec_jdf_def unionFriendlyName_def)
qed

theorem union_json_decode_by_key_witness:
  "unionCodec_jdf goJSON (makeUnionTables [(nullCodec goJSON, ''null''), (intCodec goJSON, ''int'')])
     ''{\"int\":42}'' = Inr (DInt32 42)
   \<and> unionCodec_jdf goJSON (makeUnionTables [(nullCodec goJSON, ''null''), (intCodec goJSON, ''int'')])
     ''null'' = Inr DNil
   \<and> unionCodec_jdf goJSON (makeUnionTables [(nullCodec goJSON, ''null''), (intCodec goJSON, ''int'')])
     ''{\"long\":42}'' =
       Inl (newDecoderError ''union (union)'' ''unknown union type %v'' [ArgStr ''long''] None)
   \<and> unionCodec_jdf goJSON (makeUnionTables [(nullCodec goJSON, ''null''), (intCodec goJSON, ''int'')])
     ''[1]'' =
       Inl (newDecoderError ''union (union)'' ''unsupported union value %v''
              [ArgValue (DArray [DNumber ''1''])] None)
   \<and> unionCodec_jdf goJSON (makeUnionTables [(nullCodec goJSON, ''null''), (intCodec goJSON, ''int'')])
     ''{'' = Inl (newDecoderError ''union (union)'' [] [] (Some (ErrLib ''json: syntax error'')))"
proof -
  have d1: "json_Decode goJSON ''{\"int\":42}'' = Inr (JObject [(''int'', JNumber ''42'')])"
    unfolding goJSON_sel by code_simp
  have d2: "json_Decode goJSON ''null'' = Inr JNull"
    unfolding goJSON_sel by code_simp
  have d3: "json_Decode goJSON ''{\"long\":42}'' = Inr (JObject [(''long'', JNumber ''42'')])"
    unfolding goJSON_sel by code_simp
  have d4: "json_Decode goJSON ''[1]'' = Inr (JArray [JNumber ''1''])"
    unfolding goJSON_sel by code_simp
  have d5: "json_Decode goJSON ''{'' = Inl (ErrLib ''json: syntax error'')"
    unfolding goJSON_sel by code_simp
  have m1: "json_Marshal goJSON (DNumber ''42'') = Inr ''42''"
    unfolding goJSON_sel by code_simp
  have m2: "json_Marshal goJSON DNil = Inr ''null''"
    unfolding goJSON_sel by code_simp
  have n42: "Number_Int64 ''42'' = Inr 42"
    by (simp add: Number_Int64_def decimalValue_def isDigit_def)
  have d42: "json_Decode goJSON ''42'' = Inr (JNumber ''42'')"
    unfolding goJSON_sel by code_simp
  have j1: "intJSONDecoder goJSON ''42'' = Inr (DInt32 42)"
    using intJSONDecoder_narrows [OF d42 n42] by (simp)
  have j2: "nullJSONDecoder goJSON ''null'' = Inr DNil"
    by (simp add: nullJSONDecoder_def newJSONDecoder_def d2)
  have jdfs: "jdf (intCodec goJSON) = intJSONDecoder goJSON"
    "jdf (nullCodec goJSON) = nullJSONDecoder goJSON"
    by (simp_all add: intCodec_def nullCodec_def)
  note t = union_json_decode_by_key
             [where lib = goJSON
                and ms = "[(nullCodec goJSON, ''null''), (intCodec goJSON, ''int'')]"]
  have c1: "unionCodec_jdf goJSON
              (makeUnionTables [(nullCodec goJSON, ''null''), (intCodec goJSON, ''int'')])
              ''{\"int\":42}'' = Inr (DInt32 42)"
    using t [of "''{\"int\":42}''" "JObject [(''int'', JNumber ''42'')]" "''int''" "JNumber ''42''"
                "[(nullCodec goJSON, ''null'')]" "intCodec goJSON" "[]" EOF]
    by (simp add: d1 m1 j1 jdfs)
  have c2: "unionCodec_jdf goJSON
              (makeUnionTables [(nullCodec goJSON, ''null''), (intCodec goJSON, ''int'')])
              ''null'' = Inr DNil"
    using t [of "''null''" JNull "''null''" JNull "[]" "nullCodec goJSON"
                "[(intCodec goJSON, ''int'')]" EOF]
    by (simp add: d2 m2 j2 jdfs)
  have c3: "unionCodec_jdf goJSON
              (makeUnionTables [(nullCodec goJSON, ''null''), (intCodec goJSON, ''int'')])
              ''{\"long\":42}'' =
            Inl (newDecoderError ''union (union)'' ''unknown union type %v'' [ArgStr ''long''] None)"
    using t [of "''{\"long\":42}''" "JObject [(''long'', JNumber ''42'')]" "''long''" "JNumber ''42''"
                "[]" "nullCodec goJSON" "[]" EOF]
    by (simp add: d3)
  have c4: "unionCodec_jdf goJSON
              (makeUnionTables [(nullCodec goJSON, ''null''), (intCodec goJSON, ''int'')])
              ''[1]'' =
            Inl (newDecoderError ''union (union)'' ''unsupported union value %v''
                   [ArgValue (DArray [DNumber ''1''])] None)"
    using t [of "''[1]''" "JArray [JNumber ''1'']" "[]" JNull "[]" "nullCodec goJSON" "[]" EOF]
    by (simp add: d4)
  have c5: "unionCodec_jdf goJSON
              (makeUnionTables [(nullCodec goJSON, ''null''), (intCodec goJSON, ''int'')])
              ''{'' = Inl (newDecoderError ''union (union)'' [] [] (Some (ErrLib ''json: syntax error'')))"
    using t [of "''{''" JNull "[]" JNull "[]" "nullCodec goJSON" "[]" "ErrLib ''json: syntax error''"]
    by (simp add: d5)
  from c1 c2 c3 c4 c5 show ?thesis by (intro conjI)
qed

text \<open>
  C2.  The claim has the decoder fail on an object with two or more entries.  On the
  object \<^verbatim>\<open>{"int":1,"string":"a"}\<close> the decoder of the union of int and string takes
  the entry that \<^verbatim>\<open>range\<close> yields first and decodes it; it returns a value and no error.
  (The source's comment calls that entry ``the first and only key and value'', and the
  loop does not look at the number of entries.)
\<close>

theorem union_json_decode_two_entries_accepted:
  "unionCodec_jdf goJSON
     (makeUnionTables [(intCodec goJSON, ''int''), (stringCodec goJSON, ''string'')])
     ''{\"int\":1,\"string\":\"a\"}'' = Inr (DInt32 1)"
proof -
  have d: "json_Decode goJSON ''{\"int\":1,\"string\":\"a\"}'' =
             Inr (JObject [(''int'', JNumber ''1''), (''string'', JString ''a'')])"
    unfolding goJSON_sel by code_simp
  have m: "json_Marshal goJSON (DNumber ''1'') = Inr ''1''"
    unfolding goJSON_sel by code_simp
  have n1: "Number_Int64 ''1'' = Inr 1"
    by (simp add: Number_Int64_def decimalValue_def isDigit_def)
  have d1: "json_Decode goJSON ''1'' = Inr (JNumber ''1'')"
    unfolding goJSON_sel by code_simp
  have j: "intJSONDecoder goJSON ''1'' = Inr (DInt32 1)"
    using intJSONDecoder_narrows [OF d1 n1] by (simp)
  have t: "nameToJSONDecoder
             (makeUnionTables [(intCodec goJSON, ''int''), (stringCodec goJSON, ''string'')]) ''int''
           = Some (intJSONDecoder goJSON)"
    by (simp add: makeUnionTables_def intCodec_def)
  show ?thesis
    by (simp add: unionCodec_jdf_def unionJSONTypeName_def d m j t)
qed

subsection \<open>NewCodec\<close>

text \<open>
  What \<^verbatim>\<open>NewCodec\<close> itself contributes to the canonical form.  When it accepts the
  schema text \<open>S\<close>, \<^verbatim>\<open>Schema()\<close> of the codec is the serialization of the parsed schema,
  whatever the setters do.  \<^verbatim>\<open>NewCodec\<close> accepts that text again, with the same
  \<^verbatim>\<open>Schema()\<close>, when \<^verbatim>\<open>json.Unmarshal\<close> of the serialization gives back the parsed
  schema.  That round trip is a property of \<^verbatim>\<open>encoding/json\<close>, which is a parameter
  here; it is not shown.
\<close>

lemma NewCodec_Schema:
  "NewCodec lib buildCodec setters S = Inr c \<Longrightarrow>
     (\<exists>t. json_Unmarshal lib S = Inr t \<and> json_MarshalSchema lib t = Inr (Schema c)
        \<and> (json_Unmarshal lib (Schema c) = Inr t \<longrightarrow>
             (\<exists>c'. NewCodec lib buildCodec setters (Schema c) = Inr c' \<and> Schema c' = Schema c)
           \<and> (\<exists>c'. NewCodec lib buildCodec [] (Schema c) = Inr c' \<and> Schema c' = Schema c)))"
proof -
  assume "NewCodec lib buildCodec setters S = Inr c"
  then obtain t cs c0 where u: "json_Unmarshal lib S = Inr t"
    and m: "json_MarshalSchema lib t = Inr cs"
    and b: "buildCodec t = Inr c0" and r: "runSetters setters c0 = None"
    and c: "c = c0 \<lparr> schema := cs \<rparr>"
    by (auto simp: NewCodec_def split: sum.splits option.splits)
  have sc: "Schema c = cs" using c by (simp add: Schema_def)
  have "json_Unmarshal lib (Schema c) = Inr t \<longrightarrow>
          NewCodec lib buildCodec setters (Schema c) = Inr c
          \<and> NewCodec lib buildCodec [] (Schema c) = Inr c"
    using m b c r sc by (simp add: NewCodec_def)
  with u m sc show ?thesis by auto
qed

lemma NewCodec_Schema_example:
  "NewCodec goJSONSchema buildPrimitive [] '' \"int\"  '' = Inr ((intCodec goJSON) \<lparr> schema := ''\"int\"'' \<rparr>)
   \<and> Schema ((intCodec goJSON) \<lparr> schema := ''\"int\"'' \<rparr>) = ''\"int\"''
   \<and> (\<exists>c'. NewCodec goJSONSchema buildPrimitive [] ''\"int\"'' = Inr c' \<and> Schema c' = ''\"int\"'')"
proof -
  have u1: "goJSON_Unmarshal '' \"int\"  '' = Inr (JString ''int'')" by code_simp
  have u2: "goJSON_Unmarshal ''\"int\"'' = Inr (JString ''int'')" by code_simp
  have m1: "goJSON_Marshal (DString ''int'') = Inr ''\"int\"''" by code_simp
  have n1: "NewCodec goJSONSchema buildPrimitive [] '' \"int\"  ''
              = Inr ((intCodec goJSON) \<lparr> schema := ''\"int\"'' \<rparr>)"
    by (simp add: NewCodec_def goJSONSchema_def buildPrimitive_def u1 m1)
  from NewCodec_Schema [OF n1] n1 show ?thesis
    by (auto simp: Schema_def goJSONSchema_def u1 u2)
qed

subsection \<open>Record: JSON encoding\<close>

lemma stringsJoin_Cons:
  "stringsJoin (x # xs) sep = x @ (if xs = [] then [] else sep @ stringsJoin xs sep)"
  by (cases xs) simp_all

lemma recordJSONFields_ok:
  "idx + length fs \<le> length cs \<Longrightarrow>
   \<forall>i<length fs.
      (Datum (fs ! i) \<noteq> DNil \<or> hasDefault (fs ! i))
      \<and> jef (cs ! (idx + i)) (if Datum (fs ! i) \<noteq> DNil then Datum (fs ! i) else defval (fs ! i))
          = (enc (idx + i), None)
      \<and> json_Decode lib (enc (idx + i)) = Inr (jv (idx + i))
      \<and> shortname (fName (fs ! i)) = Inr (key (idx + i)) \<Longrightarrow>
   recordJSONFields lib shortname fn cs idx fs acc =
     Inr (acc @ map (\<lambda>i. (key i, jv i)) [idx..<idx + length fs])"
proof (induction fs arbitrary: idx acc)
  case Nil
  then show ?case by simp
next
  case (Cons f fs)
  from Cons.prems(1) have idx: "idx < length cs" by simp
  from Cons.prems(2) [rule_format, of 0]
  have hd: "Datum f \<noteq> DNil \<or> hasDefault f"
    "jef (cs ! idx) (if Datum f \<noteq> DNil then Datum f else defval f) = (enc idx, None)"
    "json_Decode lib (enc idx) = Inr (jv idx)"
    "shortname (fName f) = Inr (key idx)"
    by (simp_all cong: if_cong)
  have tl: "\<forall>i<length fs.
      (Datum (fs ! i) \<noteq> DNil \<or> hasDefault (fs ! i))
      \<and> jef (cs ! (Suc idx + i)) (if Datum (fs ! i) \<noteq> DNil then Datum (fs ! i) else defval (fs ! i))
          = (enc (Suc idx + i), None)
      \<and> json_Decode lib (enc (Suc idx + i)) = Inr (jv (Suc idx + i))
      \<and> shortname (fName (fs ! i)) = Inr (key (Suc idx + i))"
  proof (intro allI impI)
    fix i assume "i < length fs"
    then have "Suc i < length (f # fs)" by simp
    from Cons.prems(2) [rule_format, OF this]
    show "(Datum (fs ! i) \<noteq> DNil \<or> hasDefault (fs ! i))
      \<and> jef (cs ! (Suc idx + i)) (if Datum (fs ! i) \<noteq> DNil then Datum (fs ! i) else defval (fs ! i))
          = (enc (Suc idx + i), None)
      \<and> json_Decode lib (enc (Suc idx + i)) = Inr (jv (Suc idx + i))
      \<and> shortname (fName (fs ! i)) = Inr (key (Suc idx + i))"
      by (simp cong: if_cong)
  qed
  from hd(1) have v: "recordFieldValue fn f = Inr (if Datum f \<noteq> DNil then Datum f else defval f)"
    by (auto simp: recordFieldValue_def)
  have IH: "recordJSONFields lib shortname fn cs (Suc idx) fs (acc @ [(key idx, jv idx)]) =
     Inr ((acc @ [(key idx, jv idx)]) @ map (\<lambda>i. (key i, jv i)) [Suc idx..<Suc idx + length fs])"
    using Cons.IH [of "Suc idx"] Cons.prems(1) tl by simp
  have upt: "[idx..<idx + length (f # fs)] = idx # [Suc idx..<Suc idx + length fs]"
    using upt_conv_Cons [of idx "idx + length (f # fs)"] by (simp del: upt_Suc)
  show ?case
    unfolding upt using idx by (simp add: v hd IH)
qed

lemma marshalKeyVals_ok:
  "\<forall>i. a \<le> i \<and> i < b \<longrightarrow>
        json_Marshal lib (DString (key i)) = Inr (mkey i)
        \<and> json_Marshal lib (fromJSON (jv i)) = Inr (mval i) \<Longrightarrow>
   marshalKeyVals lib j (map (\<lambda>i. (key i, jv i)) [a..<b]) =
     Inr ((if j \<noteq> 0 \<and> a < b then '','' else []) @
          stringsJoin (map (\<lambda>i. mkey i @ '':'' @ mval i) [a..<b]) '','')"
proof (induction "b - a" arbitrary: a j)
  case 0
  then show ?case by simp
next
  case (Suc n)
  then have ab: "a < b" and n: "n = b - Suc a" by simp_all
  from ab have upt: "[a..<b] = a # [Suc a..<b]" by (simp add: upt_conv_Cons)
  from Suc.prems ab have m: "json_Marshal lib (DString (key a)) = Inr (mkey a)"
    "json_Marshal lib (fromJSON (jv a)) = Inr (mval a)" by simp_all
  have IH: "marshalKeyVals lib (Suc j) (map (\<lambda>i. (key i, jv i)) [Suc a..<b]) =
     Inr ((if Suc j \<noteq> 0 \<and> Suc a < b then '','' else []) @
          stringsJoin (map (\<lambda>i. mkey i @ '':'' @ mval i) [Suc a..<b]) '','')"
    using Suc.hyps(1) [OF n, of "Suc j"] Suc.prems by simp
  show ?case
    unfolding upt using ab by (simp add: m IH stringsJoin_Cons)
qed

text \<open>
  What the closure writes.  For a record value \<open>r\<close> of the codec's name with no more
  fields than the schema declares, let field \<open>i\<close> have a datum or a default, let its codec's JSON encoder write
  \<open>enc i\<close> for it, let the JSON library parse \<open>enc i\<close> to \<open>jv i\<close> and serialize \<open>jv i\<close>
  as \<open>mval i\<close>, and let \<open>key i\<close> be the short name of the field, serialized as \<open>mkey i\<close>.
  Then \<^verbatim>\<open>JSONEncode\<close> writes the object \<open>{mkey 0:mval 0,mkey 1:mval 1,...}\<close>: one entry per
  field of \<open>r\<close>, in the order of these fields.  The value of an entry is not the text
  \<open>enc i\<close> but what the library makes of it by parsing and serializing.
\<close>

lemma recordCodec_jef_fields:
  "Name r = templateName \<and> length (Fields r) \<le> length fieldCodecs
   \<and> (\<forall>i<length (Fields r).
         (Datum (Fields r ! i) \<noteq> DNil \<or> hasDefault (Fields r ! i))
         \<and> jef (fieldCodecs ! i)
               (if Datum (Fields r ! i) \<noteq> DNil then Datum (Fields r ! i) else defval (Fields r ! i))
             = (enc i, None)
         \<and> json_Decode lib (enc i) = Inr (jv i)
         \<and> shortname (fName (Fields r ! i)) = Inr (key i)
         \<and> json_Marshal lib (DString (key i)) = Inr (mkey i)
         \<and> json_Marshal lib (fromJSON (jv i)) = Inr (mval i))
   \<longrightarrow> recordCodec_jef lib shortname templateName fieldCodecs (DRecord (Some r)) =
         (''{'' @ stringsJoin (map (\<lambda>i. mkey i @ '':'' @ mval i) [0..<length (Fields r)]) '',''
              @ ''}'', None)"
proof (intro impI; elim conjE)
  assume nm: "Name r = templateName" and len: "length (Fields r) \<le> length fieldCodecs"
    and all: "\<forall>i<length (Fields r).
         (Datum (Fields r ! i) \<noteq> DNil \<or> hasDefault (Fields r ! i))
         \<and> jef (fieldCodecs ! i)
               (if Datum (Fields r ! i) \<noteq> DNil then Datum (Fields r ! i) else defval (Fields r ! i))
             = (enc i, None)
         \<and> json_Decode lib (enc i) = Inr (jv i)
         \<and> shortname (fName (Fields r ! i)) = Inr (key i)
         \<and> json_Marshal lib (DString (key i)) = Inr (mkey i)
         \<and> json_Marshal lib (fromJSON (jv i)) = Inr (mval i)"
  have fields: "recordJSONFields lib shortname (recordFriendlyName templateName) fieldCodecs 0
                  (Fields r) [] =
                Inr (map (\<lambda>i. (key i, jv i)) [0..<length (Fields r)])"
    using recordJSONFields_ok [of 0 "Fields r" fieldCodecs enc lib jv shortname key
                                  "recordFriendlyName templateName" "[]"] len all
    by simp
  have marshal: "marshalKeyVals lib 0 (map (\<lambda>i. (key i, jv i)) [0..<length (Fields r)]) =
     Inr (stringsJoin (map (\<lambda>i. mkey i @ '':'' @ mval i) [0..<length (Fields r)]) '','')"
    using marshalKeyVals_ok [of 0 "length (Fields r)" lib key mkey jv mval 0] all by simp
  show "recordCodec_jef lib shortname templateName fieldCodecs (DRecord (Some r)) =
         (''{'' @ stringsJoin (map (\<lambda>i. mkey i @ '':'' @ mval i) [0..<length (Fields r)]) '',''
              @ ''}'', None)"
    by (simp add: recordCodec_jef_def nm fields OrderedMap_MarshalJSON_def marshal)
qed

lemma recordCodec_jef_fields_example:
  "recordCodec_jef goJSON fieldShortName ''R'' [intCodec goJSON, stringCodec goJSON]
     (DRecord (Some (Record ''R'' [RecordField ''a'' (DInt32 7) False DNil,
                                   RecordField ''b'' DNil True (DString ''hi'')])))
     = (''{\"a\":7,\"b\":\"hi\"}'', None)"
proof -
  have m7: "json_Marshal goJSON (DInt32 7) = Inr ''7''"
    unfolding goJSON_sel by code_simp
  have mhi: "json_Marshal goJSON (DString ''hi'') = Inr ''\"hi\"''"
    unfolding goJSON_sel by code_simp
  have ma: "json_Marshal goJSON (DString ''a'') = Inr ''\"a\"''"
    unfolding goJSON_sel by code_simp
  have mb: "json_Marshal goJSON (DString ''b'') = Inr ''\"b\"''"
    unfolding goJSON_sel by code_simp
  have mn7: "json_Marshal goJSON (DNumber ''7'') = Inr ''7''"
    unfolding goJSON_sel by code_simp
  have d7: "json_Decode goJSON ''7'' = Inr (JNumber ''7'')"
    unfolding goJSON_sel by code_simp
  have dhi: "json_Decode goJSON ''\"hi\"'' = Inr (JString ''hi'')"
    unfolding goJSON_sel by code_simp
  have sa: "fieldShortName ''a'' = Inr ''a''" by code_simp
  have sb: "fieldShortName ''b'' = Inr ''b''" by code_simp
  have jefs: "jef (intCodec goJSON) (DInt32 7) = (''7'', None)"
    "jef (stringCodec goJSON) (DString ''hi'') = (''\"hi\"'', None)"
    by (simp_all add: intCodec_def stringCodec_def intJSONEncoder_def stringJSONEncoder_def
                      newJSONEncoder_def m7 mhi)
  show ?thesis
    using recordCodec_jef_fields
      [of "Record ''R'' [RecordField ''a'' (DInt32 7) False DNil,
                         RecordField ''b'' DNil True (DString ''hi'')]"
          "''R''" "[intCodec goJSON, stringCodec goJSON]"
          "\<lambda>i. [''7'', ''\"hi\"''] ! i" goJSON
          "\<lambda>i. [JNumber ''7'', JString ''hi''] ! i" fieldShortName
          "\<lambda>i. [''a'', ''b''] ! i" "\<lambda>i. [''\"a\"'', ''\"b\"''] ! i"
          "\<lambda>i. [''7'', ''\"hi\"''] ! i"]
    by (simp add: nth_Cons' less_Suc_eq all_conj_distrib jefs d7 dhi sa sb ma mb mn7 mhi
                  upt_conv_Cons
             cong: conj_cong)
qed

text \<open>
  C5.  The claim has every value of the written object be the field codec's JSON
  encoding of the field's datum.  The closure parses that encoding into a generic JSON
  value and \<^verbatim>\<open>OrderedMap.MarshalJSON\<close> serializes the value again; a JSON object is
  parsed into a Go map, whose keys \<^verbatim>\<open>json.Marshal\<close> writes sorted.  For a record \<open>Outer\<close>
  with one field \<open>inner\<close> of the record type \<open>Inner\<close>, declared with the \<^verbatim>\<open>int\<close> fields \<open>z\<close>
  and \<open>a\<close> in this order, the codec of \<open>Inner\<close> writes \<^verbatim>\<open>{"z":1,"a":2}\<close>, and the codec of
  \<open>Outer\<close> writes the same record as \<^verbatim>\<open>{"a":2,"z":1}\<close>: the keys of the nested record
  are not in the declared order.  \<open>recordDf\<close> and \<open>recordJdf\<close> are the decoders of
  \<open>Inner\<close>, which play no part.
\<close>

theorem record_json_nested_record_keys_sorted:
  "jef (recordCodec goJSON fieldShortName ''Inner'' [intCodec goJSON, intCodec goJSON]
          recordDf recordJdf)
     (DRecord (Some (Record ''Inner'' [RecordField ''z'' (DInt32 1) False DNil,
                                       RecordField ''a'' (DInt32 2) False DNil])))
     = (''{\"z\":1,\"a\":2}'', None)
   \<and> recordCodec_jef goJSON fieldShortName ''Outer''
       [recordCodec goJSON fieldShortName ''Inner'' [intCodec goJSON, intCodec goJSON]
          recordDf recordJdf]
     (DRecord (Some (Record ''Outer''
        [RecordField ''inner''
           (DRecord (Some (Record ''Inner'' [RecordField ''z'' (DInt32 1) False DNil,
                                             RecordField ''a'' (DInt32 2) False DNil])))
           False DNil])))
     = (''{\"inner\":{\"a\":2,\"z\":1}}'', None)"
proof -
  let ?inner = "Record ''Inner'' [RecordField ''z'' (DInt32 1) False DNil,
                                  RecordField ''a'' (DInt32 2) False DNil]"
  let ?c = "recordCodec goJSON fieldShortName ''Inner'' [intCodec goJSON, intCodec goJSON]
              recordDf recordJdf"
  have m1: "json_Marshal goJSON (DInt32 1) = Inr ''1''"
    unfolding goJSON_sel by code_simp
  have m2: "json_Marshal goJSON (DInt32 2) = Inr ''2''"
    unfolding goJSON_sel by code_simp
  have mn1: "json_Marshal goJSON (DNumber ''1'') = Inr ''1''"
    unfolding goJSON_sel by code_simp
  have mn2: "json_Marshal goJSON (DNumber ''2'') = Inr ''2''"
    unfolding goJSON_sel by code_simp
  have d1: "json_Decode goJSON ''1'' = Inr (JNumber ''1'')"
    unfolding goJSON_sel by code_simp
  have d2: "json_Decode goJSON ''2'' = Inr (JNumber ''2'')"
    unfolding goJSON_sel by code_simp
  have mz: "json_Marshal goJSON (DString ''z'') = Inr ''\"z\"''"
    unfolding goJSON_sel by code_simp
  have ma: "json_Marshal goJSON (DString ''a'') = Inr ''\"a\"''"
    unfolding goJSON_sel by code_simp
  have mi: "json_Marshal goJSON (DString ''inner'') = Inr ''\"inner\"''"
    unfolding goJSON_sel by code_simp
  have sz: "fieldShortName ''z'' = Inr ''z''" by code_simp
  have sa: "fieldShortName ''a'' = Inr ''a''" by code_simp
  have si: "fieldShortName ''inner'' = Inr ''inner''" by code_simp
  have dobj: "json_Decode goJSON ''{\"z\":1,\"a\":2}''
                = Inr (JObject [(''z'', JNumber ''1''), (''a'', JNumber ''2'')])"
    unfolding goJSON_sel by code_simp
  have mobj: "json_Marshal goJSON (fromJSON (JObject [(''z'', JNumber ''1''), (''a'', JNumber ''2'')]))
                = Inr ''{\"a\":2,\"z\":1}''"
    unfolding goJSON_sel by code_simp
  have jefs: "jef (intCodec goJSON) (DInt32 1) = (''1'', None)"
    "jef (intCodec goJSON) (DInt32 2) = (''2'', None)"
    by (simp_all add: intCodec_def intJSONEncoder_def newJSONEncoder_def m1 m2)
  have inner: "recordCodec_jef goJSON fieldShortName ''Inner'' [intCodec goJSON, intCodec goJSON]
                 (DRecord (Some ?inner)) = (''{\"z\":1,\"a\":2}'', None)"
    using recordCodec_jef_fields
      [of ?inner "''Inner''" "[intCodec goJSON, intCodec goJSON]"
          "\<lambda>i. [''1'', ''2''] ! i" goJSON
          "\<lambda>i. [JNumber ''1'', JNumber ''2''] ! i" fieldShortName
          "\<lambda>i. [''z'', ''a''] ! i" "\<lambda>i. [''\"z\"'', ''\"a\"''] ! i"
          "\<lambda>i. [''1'', ''2''] ! i"]
    by (simp add: nth_Cons' less_Suc_eq all_conj_distrib jefs d1 d2 sz sa mz ma mn1 mn2
                  upt_conv_Cons
             cong: conj_cong)
  have jc: "jef ?c = recordCodec_jef goJSON fieldShortName ''Inner'' [intCodec goJSON, intCodec goJSON]"
    by (simp add: recordCodec_def)
  have outer: "recordCodec_jef goJSON fieldShortName ''Outer'' [?c]
                 (DRecord (Some (Record ''Outer''
                    [RecordField ''inner'' (DRecord (Some ?inner)) False DNil])))
               = (''{\"inner\":{\"a\":2,\"z\":1}}'', None)"
    using recordCodec_jef_fields
      [of "Record ''Outer'' [RecordField ''inner'' (DRecord (Some ?inner)) False DNil]"
          "''Outer''" "[?c]"
          "\<lambda>i. ''{\"z\":1,\"a\":2}''" goJSON
          "\<lambda>i. JObject [(''z'', JNumber ''1''), (''a'', JNumber ''2'')]" fieldShortName
          "\<lambda>i. ''inner''" "\<lambda>i. ''\"inner\"''"
          "\<lambda>i. ''{\"a\":2,\"z\":1}''"]
    by (simp add: jc inner dobj mobj si mi del: fromJSON.simps)
  from inner outer show ?thesis by (simp only: jc simp_thms)
qed

subsection \<open>Block framing\<close>

lemma sint_count_pos:
  assumes "n < 2 ^ 63"
  shows "sint (of_nat n :: 64 word) = int n"
proof -
  from assms have b: "int n < 2 ^ 63" by (metis of_nat_less_iff of_nat_numeral of_nat_power)
  have "sint (of_nat n :: 64 word) = signed_take_bit 63 (int n)"
    by (simp add: signed_of_nat)
  also have "\<dots> = int n"
    using b by (intro signed_take_bit_int_eq_self) simp_all
  finally show ?thesis .
qed

lemma sint_count_neg:
  assumes "n < 2 ^ 63"
  shows "sint (- of_nat n :: 64 word) = - int n"
proof -
  from assms have b: "int n < 2 ^ 63" by (metis of_nat_less_iff of_nat_numeral of_nat_power)
  have "(- of_nat n :: 64 word) = word_of_int (- int n)" by simp
  then have "sint (- of_nat n :: 64 word) = signed_take_bit 63 (- int n)"
    by (simp only: sint_sbintrunc') simp
  also have "\<dots> = - int n"
    using b by (intro signed_take_bit_int_eq_self) simp_all
  finally show ?thesis .
qed

lemma blockCountHeader_count:
  assumes "countBytes cb hb n"
  shows "\<exists>c. decodesTo longDecoder cb (DInt64 c) \<and> c \<noteq> 0
           \<and> (\<forall>fn tail. blockCountHeader fn c (hb @ tail) = Inr (of_nat n, tail))"
proof -
  from assms have n: "0 < n" "n < 2 ^ 63" by (simp_all add: countBytes_def)
  from assms consider
    (pos) "decodesTo longDecoder cb (DInt64 (of_nat n))" "hb = []"
  | (neg) sz where "decodesTo longDecoder cb (DInt64 (- of_nat n))" "decodesTo longDecoder hb (DInt64 sz)"
    by (auto simp: countBytes_def)
  then show ?thesis
  proof cases
    case pos
    have s: "sint (of_nat n :: 64 word) = int n" using n by (simp add: sint_count_pos)
    then have "(of_nat n :: 64 word) \<noteq> 0" using n by (metis of_nat_0_less_iff less_irrefl sint_0)
    moreover have "\<not> (of_nat n :: 64 word) <s 0" using s by (simp add: word_sless_alt)
    ultimately show ?thesis using pos by (intro exI [of _ "of_nat n"]) (simp add: blockCountHeader_def)
  next
    case neg
    have s: "sint (- of_nat n :: 64 word) = - int n" using n by (simp add: sint_count_neg)
    then have "(- of_nat n :: 64 word) \<noteq> 0" using n
      by (metis neg_equal_0_iff_equal of_nat_0_less_iff less_irrefl sint_0)
    moreover have "(- of_nat n :: 64 word) <s 0" using s n by (simp add: word_sless_alt)
    moreover have "\<And>tail. longDecoder (hb @ tail) = Inr (DInt64 sz, tail)"
      using neg(2) by (simp add: decodesTo_def)
    ultimately show ?thesis
      using neg(1) by (intro exI [of _ "- of_nat n"]) (simp add: blockCountHeader_def)
  qed
qed

lemma arrayDecodeItems_ok:
  "\<forall>(bs, v)\<in>set items. decodesTo vdf bs v \<Longrightarrow>
   arrayDecodeItems vdf (length items) data (concat (map fst items) @ tail) =
     Inr (data @ map snd items, tail)"
proof (induction items arbitrary: data)
  case Nil
  then show ?case by simp
next
  case (Cons it items)
  obtain bs v where it: "it = (bs, v)" by (cases it)
  with Cons.prems have "\<And>rest. vdf (bs @ rest) = Inr (v, rest)" by (simp add: decodesTo_def)
  with Cons show ?case by (simp add: it)
qed

lemma mapDecodeItems_ok:
  "\<forall>((kb, k), (vb, v))\<in>set items. decodesTo stringDecoder kb (DString k) \<and> decodesTo vdf vb v \<Longrightarrow>
   mapDecodeItems vdf (length items) data
       (concat (map (\<lambda>((kb, k), (vb, v)). kb @ vb) items) @ tail) =
     Inr (foldl (\<lambda>m ((kb, k), (vb, v)). mapAssign k v m) data items, tail)"
proof (induction items arbitrary: data)
  case Nil
  then show ?case by simp
next
  case (Cons it items)
  obtain kb k vb v where it: "it = ((kb, k), (vb, v))" by (metis surj_pair)
  with Cons.prems have "\<And>rest. stringDecoder (kb @ rest) = Inr (DString k, rest)"
    "\<And>rest. vdf (vb @ rest) = Inr (v, rest)" by (simp_all add: decodesTo_def)
  with Cons show ?case by (simp add: it)
qed

lemma arrayStream_simps [simp]:
  "arrayStream [] t = t"
  "arrayStream ((cb, hb, items) # blocks) t = cb @ hb @ concat (map fst items) @ arrayStream blocks t"
  by (simp_all add: arrayStream_def)

lemma arrayDecodeBlocks_stream:
  "\<forall>(cb, hb, items)\<in>set blocks.
      countBytes cb hb (length items) \<and> (\<forall>(bs, v)\<in>set items. decodesTo vdf bs v) \<Longrightarrow>
   decodesTo longDecoder t (DInt64 0) \<Longrightarrow>
   \<exists>c r'. longDecoder (arrayStream blocks t @ rest) = Inr (DInt64 c, r')
     \<and> (\<forall>data. arrayDecodeBlocks vdf c data r' =
           Some (Inr (DArray (data @ concat (map (\<lambda>(cb, hb, items). map snd items) blocks)), rest)))"
proof (induction blocks)
  case Nil
  then have "longDecoder (t @ rest) = Inr (DInt64 0, rest)" by (simp add: decodesTo_def)
  then show ?case by (auto simp: arrayDecodeBlocks.simps)
next
  case (Cons blk blocks)
  obtain cb hb items where blk: "blk = (cb, hb, items)" by (metis surj_pair)
  from Cons.prems blk have cnt: "countBytes cb hb (length items)"
    and its: "\<forall>(bs, v)\<in>set items. decodesTo vdf bs v" by simp_all
  from Cons.prems have "\<forall>(cb, hb, items)\<in>set blocks.
      countBytes cb hb (length items) \<and> (\<forall>(bs, v)\<in>set items. decodesTo vdf bs v)" by simp
  from Cons.IH [OF this Cons.prems(2)] obtain c' r'' where
    nxt: "longDecoder (arrayStream blocks t @ rest) = Inr (DInt64 c', r'')"
    and tl: "\<And>data. arrayDecodeBlocks vdf c' data r'' =
           Some (Inr (DArray (data @ concat (map (\<lambda>(cb, hb, items). map snd items) blocks)), rest))"
    by blast
  from blockCountHeader_count [OF cnt] obtain c where
    c: "decodesTo longDecoder cb (DInt64 c)" "c \<noteq> 0"
    and hdr: "\<And>fn tail. blockCountHeader fn c (hb @ tail) = Inr (of_nat (length items), tail)"
    by blast
  from cnt have n: "length items < 2 ^ 63" by (simp add: countBytes_def)
  have first: "longDecoder (arrayStream (blk # blocks) t @ rest) =
                 Inr (DInt64 c, hb @ concat (map fst items) @ arrayStream blocks t @ rest)"
    using c(1) by (simp add: blk decodesTo_def)
  have step: "arrayDecodeBlocks vdf c data (hb @ concat (map fst items) @ arrayStream blocks t @ rest) =
        Some (Inr (DArray (data @ concat (map (\<lambda>(cb, hb, items). map snd items) (blk # blocks))), rest))"
    for data
    apply (subst arrayDecodeBlocks.simps)
    apply (simp add: c(2) hdr sint_count_pos [OF n] arrayDecodeItems_ok [OF its] nxt tl blk)
    done
  from first step show ?case by blast
qed

lemma mapStream_simps [simp]:
  "mapStream [] t = t"
  "mapStream ((cb, hb, items) # blocks) t =
     cb @ hb @ concat (map (\<lambda>((kb, k), (vb, v)). kb @ vb) items) @ mapStream blocks t"
  by (simp_all add: mapStream_def)

lemma mapDecodeBlocks_stream:
  "\<forall>(cb, hb, items)\<in>set blocks.
      countBytes cb hb (length items)
      \<and> (\<forall>((kb, k), (vb, v))\<in>set items. decodesTo stringDecoder kb (DString k) \<and> decodesTo vdf vb v) \<Longrightarrow>
   decodesTo longDecoder t (DInt64 0) \<Longrightarrow>
   \<exists>c r'. longDecoder (mapStream blocks t @ rest) = Inr (DInt64 c, r')
     \<and> (\<forall>data. mapDecodeBlocks vdf c data r' =
           Some (Inr (DMap (foldl (\<lambda>m ((kb, k), (vb, v)). mapAssign k v m) data
                              (concat (map (\<lambda>(cb, hb, items). items) blocks))), rest)))"
proof (induction blocks)
  case Nil
  then have "longDecoder (t @ rest) = Inr (DInt64 0, rest)" by (simp add: decodesTo_def)
  then show ?case by (auto simp: mapDecodeBlocks.simps)
next
  case (Cons blk blocks)
  obtain cb hb items where blk: "blk = (cb, hb, items)" by (metis surj_pair)
  from Cons.prems blk have cnt: "countBytes cb hb (length items)"
    and its: "\<forall>((kb, k), (vb, v))\<in>set items.
                 decodesTo stringDecoder kb (DString k) \<and> decodesTo vdf vb v" by simp_all
  from Cons.prems have "\<forall>(cb, hb, items)\<in>set blocks.
      countBytes cb hb (length items)
      \<and> (\<forall>((kb, k), (vb, v))\<in>set items. decodesTo stringDecoder kb (DString k) \<and> decodesTo vdf vb v)"
    by simp
  from Cons.IH [OF this Cons.prems(2)] obtain c' r'' where
    nxt: "longDecoder (mapStream blocks t @ rest) = Inr (DInt64 c', r'')"
    and tl: "\<And>data. mapDecodeBlocks vdf c' data r'' =
           Some (Inr (DMap (foldl (\<lambda>m ((kb, k), (vb, v)). mapAssign k v m) data
                              (concat (map (\<lambda>(cb, hb, items). items) blocks))), rest))"
    by blast
  from blockCountHeader_count [OF cnt] obtain c where
    c: "decodesTo longDecoder cb (DInt64 c)" "c \<noteq> 0"
    and hdr: "\<And>fn tail. blockCountHeader fn c (hb @ tail) = Inr (of_nat (length items), tail)"
    by blast
  from cnt have n: "length items < 2 ^ 63" by (simp add: countBytes_def)
  have first: "longDecoder (mapStream (blk # blocks) t @ rest) =
                 Inr (DInt64 c, hb @ concat (map (\<lambda>((kb, k), (vb, v)). kb @ vb) items)
                                   @ mapStream blocks t @ rest)"
    using c(1) by (simp add: blk decodesTo_def)
  have step: "mapDecodeBlocks vdf c data
                (hb @ concat (map (\<lambda>((kb, k), (vb, v)). kb @ vb) items) @ mapStream blocks t @ rest) =
        Some (Inr (DMap (foldl (\<lambda>m ((kb, k), (vb, v)). mapAssign k v m) data
                              (concat (map (\<lambda>(cb, hb, items). items) (blk # blocks)))), rest))"
    for data
    apply (subst mapDecodeBlocks.simps)
    apply (simp add: c(2) hdr sint_count_pos [OF n] mapDecodeItems_ok [OF its] nxt tl blk)
    done
  from first step show ?case by blast
qed

lemma map_of_mapAssign: "map_of (mapAssign k v m) = (map_of m)(k \<mapsto> v)"
  by (induction m) auto

lemma fst_set_mapAssign: "fst ` set (mapAssign k v m) = insert k (fst ` set m)"
  by (induction m) auto

lemma distinct_mapAssign: "distinct (map fst m) \<Longrightarrow> distinct (map fst (mapAssign k v m))"
  by (induction m) (auto simp: fst_set_mapAssign)

lemma foldl_mapAssign:
  "distinct (map fst m0) \<Longrightarrow>
   distinct (map fst (foldl (\<lambda>m ((kb, k), (vb, v)). mapAssign k v m) m0 items))
   \<and> map_of (foldl (\<lambda>m ((kb, k), (vb, v)). mapAssign k v m) m0 items) =
       map_of m0 ++ map_of (rev (map (\<lambda>((kb, k), (vb, v)). (k, v)) items))"
proof (induction items arbitrary: m0)
  case Nil
  then show ?case by simp
next
  case (Cons it items)
  obtain kb k vb v where it: "it = ((kb, k), (vb, v))" by (metis surj_pair)
  have d: "distinct (map fst (mapAssign k v m0))"
    using Cons.prems by (rule distinct_mapAssign)
  have shift: "map_of m0 ++ map_of (rev (map (\<lambda>((kb, k), (vb, v)). (k, v)) (it # items))) =
               map_of (mapAssign k v m0) ++ map_of (rev (map (\<lambda>((kb, k), (vb, v)). (k, v)) items))"
    by (rule ext) (simp add: it map_of_mapAssign map_add_def split: option.splits)
  from Cons.IH [OF d] show ?case
    unfolding shift by (simp add: it)
qed

text \<open>
  C7.  A block is a count \<open>cb\<close>, an optional size hint \<open>hb\<close> and its entries.  The count
  bytes decode as a long that is either the number \<open>n\<close> of entries (then there is no
  hint) or \<open>-n\<close> (then the hint is one more long, of any value), for \<open>0 < n < 2^63\<close>.
  Every stream made of such blocks and a final long 0 is accepted, whatever the
  division into blocks: the array decoder returns the entries of all blocks in order,
  and the map decoder returns the map obtained by assigning the entries in order, so
  that a key has the value of its last occurrence.  Both leave the reader at the byte
  after the final 0.
\<close>

theorem block_framing_decodes_same:
  "((\<forall>(cb, hb, items)\<in>set blocks.
        countBytes cb hb (length items) \<and> (\<forall>(bs, v)\<in>set items. decodesTo vdf bs v))
     \<and> decodesTo longDecoder t (DInt64 0) \<longrightarrow>
     arrayCodec_df vdf
       (concat (map (\<lambda>(cb, hb, items). cb @ hb @ concat (map fst items)) blocks) @ t @ rest) =
       Some (Inr (DArray (concat (map (\<lambda>(cb, hb, items). map snd items) blocks)), rest)))
   \<and> ((\<forall>(cb, hb, items)\<in>set mblocks.
        countBytes cb hb (length items)
        \<and> (\<forall>((kb, k), (vb, v))\<in>set items.
              decodesTo stringDecoder kb (DString k) \<and> decodesTo vdf vb v))
     \<and> decodesTo longDecoder t (DInt64 0) \<longrightarrow>
     (\<exists>m. mapCodec_df vdf
            (concat (map (\<lambda>(cb, hb, items).
                            cb @ hb @ concat (map (\<lambda>((kb, k), (vb, v)). kb @ vb) items)) mblocks)
             @ t @ rest) = Some (Inr (DMap m, rest))
        \<and> m = foldl (\<lambda>m ((kb, k), (vb, v)). mapAssign k v m) []
                  (concat (map (\<lambda>(cb, hb, items). items) mblocks))
        \<and> distinct (map fst m)
        \<and> map_of m =
            map_of (rev (map (\<lambda>((kb, k), (vb, v)). (k, v))
                             (concat (map (\<lambda>(cb, hb, items). items) mblocks))))))"
proof (intro conjI impI; elim conjE)
  assume b: "\<forall>(cb, hb, items)\<in>set blocks.
        countBytes cb hb (length items) \<and> (\<forall>(bs, v)\<in>set items. decodesTo vdf bs v)"
    and t: "decodesTo longDecoder t (DInt64 0)"
  from arrayDecodeBlocks_stream [OF b t, of rest] obtain c r' where
    "longDecoder (arrayStream blocks t @ rest) = Inr (DInt64 c, r')"
    "\<And>data. arrayDecodeBlocks vdf c data r' =
           Some (Inr (DArray (data @ concat (map (\<lambda>(cb, hb, items). map snd items) blocks)), rest))"
    by blast
  then show "arrayCodec_df vdf
       (concat (map (\<lambda>(cb, hb, items). cb @ hb @ concat (map fst items)) blocks) @ t @ rest) =
       Some (Inr (DArray (concat (map (\<lambda>(cb, hb, items). map snd items) blocks)), rest))"
    by (simp add: arrayCodec_df_def arrayStream_def)
next
  assume b: "\<forall>(cb, hb, items)\<in>set mblocks.
        countBytes cb hb (length items)
        \<and> (\<forall>((kb, k), (vb, v))\<in>set items.
              decodesTo stringDecoder kb (DString k) \<and> decodesTo vdf vb v)"
    and t: "decodesTo longDecoder t (DInt64 0)"
  from mapDecodeBlocks_stream [OF b t, of rest] obtain c r' where
    "longDecoder (mapStream mblocks t @ rest) = Inr (DInt64 c, r')"
    "\<And>data. mapDecodeBlocks vdf c data r' =
           Some (Inr (DMap (foldl (\<lambda>m ((kb, k), (vb, v)). mapAssign k v m) data
                              (concat (map (\<lambda>(cb, hb, items). items) mblocks))), rest))"
    by blast
  then have "mapCodec_df vdf
            (concat (map (\<lambda>(cb, hb, items).
                            cb @ hb @ concat (map (\<lambda>((kb, k), (vb, v)). kb @ vb) items)) mblocks)
             @ t @ rest) =
         Some (Inr (DMap (foldl (\<lambda>m ((kb, k), (vb, v)). mapAssign k v m) []
                              (concat (map (\<lambda>(cb, hb, items). items) mblocks))), rest))"
    by (simp add: mapCodec_df_def mapStream_def)
  then show "\<exists>m. mapCodec_df vdf
            (concat (map (\<lambda>(cb, hb, items).
                            cb @ hb @ concat (map (\<lambda>((kb, k), (vb, v)). kb @ vb) items)) mblocks)
             @ t @ rest) = Some (Inr (DMap m, rest))
        \<and> m = foldl (\<lambda>m ((kb, k), (vb, v)). mapAssign k v m) []
                  (concat (map (\<lambda>(cb, hb, items). items) mblocks))
        \<and> distinct (map fst m)
        \<and> map_of m =
            map_of (rev (map (\<lambda>((kb, k), (vb, v)). (k, v))
                             (concat (map (\<lambda>(cb, hb, items). items) mblocks))))"
    using foldl_mapAssign [of "[]" "concat (map (\<lambda>(cb, hb, items). items) mblocks)"]
    by simp
qed

lemma readVarint_one_byte:
  "b AND 128 = 0 \<Longrightarrow> readVarint 10 0 0 (b # r) = Inr (unat (b AND 127), r)"
  "b AND 128 = 0 \<Longrightarrow> readVarint 5 0 0 (b # r) = Inr (unat (b AND 127), r)"
  using readVarint.simps(3) [of 9 0 0 b r] readVarint.simps(3) [of 4 0 0 b r]
  by (simp_all add: Let_def)

lemma decodesTo_long_examples:
  "decodesTo longDecoder [0] (DInt64 0)"
  "decodesTo longDecoder [2] (DInt64 1)"
  "decodesTo longDecoder [4] (DInt64 2)"
  "decodesTo longDecoder [6] (DInt64 3)"
  "decodesTo longDecoder [5] (DInt64 (- 3))"
  by (simp_all add: decodesTo_def longDecoder_def readVarint_one_byte unzigzag64_def)

lemma decodesTo_int_examples:
  "decodesTo intDecoder [2] (DInt32 1)"
  "decodesTo intDecoder [4] (DInt32 2)"
  "decodesTo intDecoder [6] (DInt32 3)"
  by (simp_all add: decodesTo_def intDecoder_def readVarint_one_byte unzigzag32_def)

lemma decodesTo_string_example:
  "decodesTo stringDecoder [2, 97] (DString ''a'')"
proof -
  have "char_of (97 :: nat) = CHR ''a''" by code_simp
  then show ?thesis
    by (simp add: decodesTo_def stringDecoder_def longDecoder_def readVarint_one_byte unzigzag64_def)
qed

theorem block_framing_decodes_same_witness:
  "arrayCodec_df intDecoder [6, 2, 4, 6, 0] = Some (Inr (DArray [DInt32 1, DInt32 2, DInt32 3], []))
   \<and> arrayCodec_df intDecoder [2, 2, 2, 4, 2, 6, 0]
       = Some (Inr (DArray [DInt32 1, DInt32 2, DInt32 3], []))
   \<and> arrayCodec_df intDecoder [5, 6, 2, 4, 6, 0]
       = Some (Inr (DArray [DInt32 1, DInt32 2, DInt32 3], []))
   \<and> mapCodec_df intDecoder [4, 2, 97, 2, 2, 97, 4, 0] = Some (Inr (DMap [(''a'', DInt32 2)], []))
   \<and> mapCodec_df intDecoder [2, 2, 97, 2, 2, 2, 97, 4, 0]
       = Some (Inr (DMap [(''a'', DInt32 2)], []))"
proof -
  note ex = decodesTo_long_examples decodesTo_int_examples decodesTo_string_example
  note th = block_framing_decodes_same [where vdf = intDecoder and t = "[0]" and rest = "[]"]
  have a1: "arrayCodec_df intDecoder [6, 2, 4, 6, 0]
              = Some (Inr (DArray [DInt32 1, DInt32 2, DInt32 3], []))"
    using th [of "[([6], [], [([2], DInt32 1), ([4], DInt32 2), ([6], DInt32 3)])]" "[]"]
    by (simp add: countBytes_def ex)
  have a2: "arrayCodec_df intDecoder [2, 2, 2, 4, 2, 6, 0]
              = Some (Inr (DArray [DInt32 1, DInt32 2, DInt32 3], []))"
    using th [of "[([2], [], [([2], DInt32 1)]), ([2], [], [([4], DInt32 2)]),
                   ([2], [], [([6], DInt32 3)])]" "[]"]
    by (simp add: countBytes_def ex)
  have hint: "\<exists>sz. decodesTo longDecoder [6] (DInt64 sz)"
    using decodesTo_long_examples(4) by (rule exI)
  have a3: "arrayCodec_df intDecoder [5, 6, 2, 4, 6, 0]
              = Some (Inr (DArray [DInt32 1, DInt32 2, DInt32 3], []))"
    using th [of "[([5], [6], [([2], DInt32 1), ([4], DInt32 2), ([6], DInt32 3)])]" "[]"]
    by (simp add: countBytes_def ex hint)
  have m1: "mapCodec_df intDecoder [4, 2, 97, 2, 2, 97, 4, 0]
              = Some (Inr (DMap [(''a'', DInt32 2)], []))"
    using th [of "[]" "[([4], [], [(([2, 97], ''a''), ([2], DInt32 1)),
                                     (([2, 97], ''a''), ([4], DInt32 2))])]"]
    by (simp add: countBytes_def ex)
  have m2: "mapCodec_df intDecoder [2, 2, 97, 2, 2, 2, 97, 4, 0]
              = Some (Inr (DMap [(''a'', DInt32 2)], []))"
    using th [of "[]" "[([2], [], [(([2, 97], ''a''), ([2], DInt32 1))]),
                        ([2], [], [(([2, 97], ''a''), ([4], DInt32 2))])]"]
    by (simp add: countBytes_def ex)
  from a1 a2 a3 m1 m2 show ?thesis by (intro conjI)
qed

end
